theory Spec2Isabelle
  imports Main
begin

section \<open>Python strings\<close>

text \<open>
  A Python \<open>str\<close> is a sequence of Unicode code points, so it is modelled as a list of
  natural numbers (one per code point), not as a list of bytes.  \<open>str\<close> turns an ASCII
  literal into that representation.
\<close>

type_synonym pystr = "nat list"

definition str :: "string \<Rightarrow> pystr" where
  "str s = map of_char s"

text \<open>
  \<open>str.isspace\<close> for one code point: the characters that \<open>str.strip()\<close> without an
  argument removes.
\<close>

definition isspace :: "nat \<Rightarrow> bool" where
  "isspace c \<longleftrightarrow>
     (9 \<le> c \<and> c \<le> 13) \<or> (28 \<le> c \<and> c \<le> 32) \<or> c = 133 \<or> c = 160 \<or> c = 5760 \<or>
     (8192 \<le> c \<and> c \<le> 8202) \<or> c = 8232 \<or> c = 8233 \<or> c = 8239 \<or> c = 8287 \<or> c = 12288"

text \<open>The line boundaries of \<open>str.splitlines()\<close>.\<close>

definition linebreak :: "nat \<Rightarrow> bool" where
  "linebreak c \<longleftrightarrow>
     c = 10 \<or> c = 11 \<or> c = 12 \<or> c = 13 \<or> c = 28 \<or> c = 29 \<or> c = 30 \<or> c = 133 \<or>
     c = 8232 \<or> c = 8233"

text \<open>\<open>s.strip()\<close> and \<open>s.strip(chars)\<close>: both ends are stripped.\<close>

definition py_strip :: "pystr \<Rightarrow> pystr" where
  "py_strip s = rev (dropWhile isspace (rev (dropWhile isspace s)))"

definition strip_chars :: "pystr \<Rightarrow> pystr \<Rightarrow> pystr" where
  "strip_chars chars s =
     rev (dropWhile (\<lambda>c. c \<in> set chars) (rev (dropWhile (\<lambda>c. c \<in> set chars) s)))"

text \<open>
  \<open>s.splitlines()\<close>: the scan of the string with the line collected so far in \<open>cur\<close>.
  A carriage return followed by a line feed is one boundary; a last line without a
  boundary is kept only when it is not empty.
\<close>

fun splitlines_from :: "pystr \<Rightarrow> pystr \<Rightarrow> pystr list" where
  "splitlines_from cur [] = (if cur = [] then [] else [cur])"
| "splitlines_from cur (c # cs) =
     (if c = 13 then
        (case cs of
           [] \<Rightarrow> cur # splitlines_from [] cs
         | d # ds \<Rightarrow> if d = 10 then cur # splitlines_from [] ds else cur # splitlines_from [] cs)
      else if linebreak c then cur # splitlines_from [] cs
      else splitlines_from (cur @ [c]) cs)"

definition splitlines :: "pystr \<Rightarrow> pystr list" where
  "splitlines s = splitlines_from [] s"

text \<open>\<open>s.split(sep)\<close> for a separator of one character.\<close>

fun split_from :: "nat \<Rightarrow> pystr \<Rightarrow> pystr \<Rightarrow> pystr list" where
  "split_from sep cur [] = [cur]"
| "split_from sep cur (c # cs) =
     (if c = sep then cur # split_from sep [] cs else split_from sep (cur @ [c]) cs)"

definition split :: "nat \<Rightarrow> pystr \<Rightarrow> pystr list" where
  "split sep s = split_from sep [] s"

section \<open>Parsing of the highlights response (model.py, analyze\_with\_llm)\<close>

text \<open>
  The argument of \<open>h.strip(...)\<close> in the newline branch, as the source file has it:
  hyphen, U+00E2, U+20AC, U+00A2, space, tab.
\<close>

definition decorative :: pystr where
  "decorative = [45, 226, 8364, 162, 32, 9]"

text \<open>
  The list built by lines 237-243: nothing for an empty response, the lines when the
  response has a line feed, the comma-separated pieces otherwise.
\<close>

definition split_highlights :: "pystr \<Rightarrow> pystr list" where
  "split_highlights highlights_text =
     (if highlights_text \<noteq> [] then
        (if 10 \<in> set highlights_text
         then map (strip_chars decorative)
                (filter (\<lambda>h. py_strip h \<noteq> []) (splitlines highlights_text))
         else map py_strip
                (filter (\<lambda>h. py_strip h \<noteq> []) (split 44 highlights_text)))
      else [])"

text \<open>Lines 245-249: the fallback to the raw response, then the limit of five.\<close>

definition parse_highlights :: "pystr \<Rightarrow> pystr list" where
  "parse_highlights highlights_text =
     (let highlights = split_highlights highlights_text;
          highlights = (if highlights = []
                        then (if highlights_text \<noteq> [] then [highlights_text] else [])
                        else highlights)
      in take 5 highlights)"

section \<open>Exceptions and the observable world\<close>

text \<open>
  The exceptions that travel between the functions of the two modules.  \<open>Exception\<close>
  stands for the base class raised by the wrappers of model.py and for whatever a
  library raises; \<open>HTTPException\<close> carries the status code and the detail.
\<close>

datatype exn = Exception pystr | ValueError pystr | HTTPException nat pystr

fun decimal :: "nat \<Rightarrow> pystr" where
  "decimal n = (if n < 10 then [48 + n] else decimal (n div 10) @ [48 + n mod 10])"

declare decimal.simps [simp del]

text \<open>\<open>str(e)\<close>; for an \<open>HTTPException\<close> it is the status code, a colon and the detail.\<close>

fun str_exn :: "exn \<Rightarrow> pystr" where
  "str_exn (Exception m) = m"
| "str_exn (ValueError m) = m"
| "str_exn (HTTPException code detail) = decimal code @ str '': '' @ detail"

text \<open>
  One streamed fragment is an arbitrary Python value: the client library delivers
  objects with attributes, other versions deliver dictionaries.  \<open>PObj\<close> is an object
  given by its attributes, \<open>PDict\<close> a dictionary with string keys.
\<close>

datatype pyval =
    PNone
  | PBool bool
  | PInt int
  | PStr pystr
  | PList "pyval list"
  | PDict "(pystr \<times> pyval) list"
  | PObj "(pystr \<times> pyval) list"

text \<open>What the stream yields next: a fragment, or an exception out of the iterator.\<close>

datatype event = Chunk pyval | StreamRaise exn

text \<open>
  The request of \<open>chat.completions.create\<close>: the role-tagged messages and the token
  ceiling.  The model name, \<open>top_p\<close>, \<open>stream\<close> and \<open>stop\<close> are constants of the source and
  the temperature is a float; none of them is part of the model.
\<close>

record request =
  messages :: "(pystr \<times> pystr) list"
  max_completion_tokens :: nat

text \<open>One detected region of the OCR engine: \<open>[box, (text, confidence)]\<close>.\<close>

type_synonym ('b, 'c) region = "'b \<times> (pystr \<times> 'c)"

text \<open>
  The result of \<open>ocr.ocr(path)\<close>: \<open>None\<close>, or one entry per page, each \<open>None\<close> or a list of
  regions.
\<close>

type_synonym ('b, 'c) ocr_result = "('b, 'c) region list option list option"

text \<open>
  The collaborators, as the functions of their inputs that the code observes:
  the environment variable, the constructors of the OCR engine and of the Groq client
  (the exception each raises, if any), the image check and the OCR engine on the
  bytes found at a path (\<open>None\<close> when there is no file), the chat-completion service,
  the formatted traceback, \<open>tempfile.NamedTemporaryFile\<close> for a given suffix in a given
  file system (the exception it raises, or the name of the file it created), the
  \<open>write\<close> of the bytes to the temporary file (the exception it raises together with
  the bytes that reached the file, if it raises), its \<open>close\<close>, and whether
  \<open>os.unlink\<close> succeeds on a path.
\<close>

record ('b, 'c) env =
  getenv_GROQ_API_KEY :: "pystr option"
  PaddleOCR_init :: "exn option"
  Groq_init :: "pystr \<Rightarrow> exn option"
  Image_verify :: "nat list option \<Rightarrow> exn option"
  ocr_engine :: "nat list option \<Rightarrow> exn + ('b, 'c) ocr_result"
  chat_completions_create :: "request \<Rightarrow> exn + event list"
  format_exc :: "exn \<Rightarrow> pystr"
  NamedTemporaryFile :: "(pystr \<Rightarrow> nat list option) \<Rightarrow> pystr \<Rightarrow> exn + pystr"
  write_outcome :: "pystr \<Rightarrow> nat list \<Rightarrow> (exn \<times> nat list) option"
  close_outcome :: "pystr \<Rightarrow> exn option"
  unlink_ok :: "pystr \<Rightarrow> bool"

text \<open>
  The calls to the constructors, to the engines and the service, and the requests to
  create a temporary file (with its suffix) and to remove a file, recorded in the
  order in which they are made.
\<close>

datatype call =
    PaddleOCR_new
  | Groq_new pystr
  | Verify_call pystr
  | Ocr_call pystr
  | Create_call request
  | NamedTemporaryFile_call pystr
  | Unlink_call pystr

text \<open>
  The state a request can change: the files (path to bytes), the module-level
  \<open>processor\<close> of app.py (\<open>None\<close>, or the processor with the key its client was built
  with) and the record of calls.
\<close>

record world =
  files :: "pystr \<Rightarrow> nat list option"
  processor :: "pystr option"
  trace :: "call list"

definition log :: "call \<Rightarrow> world \<Rightarrow> world" where
  "log c w = w\<lparr>trace := trace w @ [c]\<rparr>"

section \<open>Text extraction (model.py, extract\_text\_from\_image)\<close>

fun join :: "pystr \<Rightarrow> pystr list \<Rightarrow> pystr" where
  "join sep [] = []"
| "join sep [x] = x"
| "join sep (x # y # ys) = x @ sep @ join sep (y # ys)"

text \<open>
  Lines 64-72, on the value the engine returned: the empty string when the result or
  its first page is empty or \<open>None\<close>, the texts joined by a line feed otherwise.
\<close>

fun flatten_ocr :: "('b, 'c) ocr_result \<Rightarrow> pystr" where
  "flatten_ocr None = []"
| "flatten_ocr (Some []) = []"
| "flatten_ocr (Some (None # pages)) = []"
| "flatten_ocr (Some (Some [] # pages)) = []"
| "flatten_ocr (Some (Some lines # pages)) = join [10] (map (\<lambda>line. fst (snd line)) lines)"

text \<open>
  The whole method: the image check, then the engine, each on the bytes found at the
  path; any exception is wrapped.
\<close>

definition extract_text_from_image ::
  "('b, 'c) env \<Rightarrow> pystr \<Rightarrow> world \<Rightarrow> (exn + pystr) \<times> world" where
  "extract_text_from_image env image_path w =
     (let w1 = log (Verify_call image_path) w in
      case Image_verify env (files w image_path) of
        Some e \<Rightarrow> (Inl (Exception (str ''OCR extraction failed: '' @ str_exn e)), w1)
      | None \<Rightarrow>
          (let w2 = log (Ocr_call image_path) w1 in
           case ocr_engine env (files w image_path) of
             Inl e \<Rightarrow> (Inl (Exception (str ''OCR extraction failed: '' @ str_exn e)), w2)
           | Inr result \<Rightarrow> (Inr (flatten_ocr result), w2)))"

section \<open>Streaming (model.py, \_get\_groq\_response)\<close>

text \<open>The failures of an access to a Python value; all of them are \<open>Exception\<close>s.\<close>

datatype access_error = AttributeError | IndexError | KeyError | TypeError

fun truthy :: "pyval \<Rightarrow> bool" where
  "truthy PNone = False"
| "truthy (PBool b) = b"
| "truthy (PInt i) = (i \<noteq> 0)"
| "truthy (PStr s) = (s \<noteq> [])"
| "truthy (PList xs) = (xs \<noteq> [])"
| "truthy (PDict kvs) = (kvs \<noteq> [])"
| "truthy (PObj attrs) = True"

text \<open>\<open>v.name\<close>, for the attribute names the source reads.\<close>

fun attr :: "pyval \<Rightarrow> pystr \<Rightarrow> access_error + pyval" where
  "attr (PObj attrs) name =
     (case map_of attrs name of None \<Rightarrow> Inl AttributeError | Some v \<Rightarrow> Inr v)"
| "attr v name = Inl AttributeError"

text \<open>\<open>getattr(v, name, None)\<close>.\<close>

definition getattr_or_None :: "pyval \<Rightarrow> pystr \<Rightarrow> pyval" where
  "getattr_or_None v name = (case attr v name of Inl e \<Rightarrow> PNone | Inr x \<Rightarrow> x)"

text \<open>\<open>v[0]\<close>.\<close>

fun index0 :: "pyval \<Rightarrow> access_error + pyval" where
  "index0 (PList []) = Inl IndexError"
| "index0 (PList (x # xs)) = Inr x"
| "index0 (PStr []) = Inl IndexError"
| "index0 (PStr (c # cs)) = Inr (PStr [c])"
| "index0 (PDict kvs) = Inl KeyError"
| "index0 v = Inl TypeError"

text \<open>\<open>v.get(key)\<close>: a method of dictionaries only.\<close>

fun dict_get :: "pyval \<Rightarrow> pystr \<Rightarrow> access_error + pyval" where
  "dict_get (PDict kvs) key = Inr (case map_of kvs key of None \<Rightarrow> PNone | Some v \<Rightarrow> v)"
| "dict_get v key = Inl AttributeError"

text \<open>\<open>v[key]\<close> with a string key.\<close>

fun item :: "pyval \<Rightarrow> pystr \<Rightarrow> access_error + pyval" where
  "item (PDict kvs) key = (case map_of kvs key of None \<Rightarrow> Inl KeyError | Some v \<Rightarrow> Inr v)"
| "item v key = Inl TypeError"

text \<open>\<open>response_text += v\<close>.\<close>

fun append_text :: "pystr \<Rightarrow> pyval \<Rightarrow> access_error + pystr" where
  "append_text response_text (PStr s) = Inr (response_text @ s)"
| "append_text response_text v = Inl TypeError"

text \<open>Sequencing of two steps, the second skipped when the first raises.\<close>

definition and_then :: "access_error + 'a \<Rightarrow> ('a \<Rightarrow> access_error + 'b) \<Rightarrow> access_error + 'b" where
  "and_then r f = (case r of Inl e \<Rightarrow> Inl e | Inr x \<Rightarrow> f x)"

text \<open>Lines 93-95: the access by attributes.\<close>

definition by_attributes :: "pystr \<Rightarrow> pyval \<Rightarrow> access_error + pystr" where
  "by_attributes response_text chunk =
     and_then (attr chunk (str ''choices'')) (\<lambda>choices.
     and_then (index0 choices) (\<lambda>choice.
     and_then (attr choice (str ''delta'')) (\<lambda>delta.
       if truthy (getattr_or_None delta (str ''content''))
       then and_then (attr delta (str ''content'')) (append_text response_text)
       else Inr response_text)))"

text \<open>\<open>chunk["choices"][0]\<close>, evaluated anew at each of its occurrences in line 99-100.\<close>

definition choices0 :: "pyval \<Rightarrow> access_error + pyval" where
  "choices0 chunk = and_then (item chunk (str ''choices'')) index0"

text \<open>Lines 99-100: the access by keys, with the short-circuit of \<open>and\<close>.\<close>

definition by_keys :: "pystr \<Rightarrow> pyval \<Rightarrow> access_error + pystr" where
  "by_keys response_text chunk =
     and_then (dict_get chunk (str ''choices'')) (\<lambda>choices.
       if \<not> truthy choices then Inr response_text
       else
     and_then (choices0 chunk) (\<lambda>choice.
     and_then (dict_get choice (str ''delta'')) (\<lambda>delta.
       if \<not> truthy delta then Inr response_text
       else
     and_then (choices0 chunk) (\<lambda>choice.
     and_then (item choice (str ''delta'')) (\<lambda>delta.
     and_then (dict_get delta (str ''content'')) (\<lambda>content.
       if \<not> truthy content then Inr response_text
       else
     and_then (choices0 chunk) (\<lambda>choice.
     and_then (item choice (str ''delta'')) (\<lambda>delta.
     and_then (item delta (str ''content'')) (append_text response_text)))))))))"

text \<open>Lines 104-105: the plain text field.\<close>

definition by_text :: "pystr \<Rightarrow> pyval \<Rightarrow> access_error + pystr" where
  "by_text response_text chunk =
     and_then (dict_get chunk (str ''text'')) (\<lambda>text.
       if truthy text
       then and_then (dict_get chunk (str ''text'')) (append_text response_text)
       else Inr response_text)"

text \<open>
  The body of the loop, lines 92-107: each \<open>except Exception\<close> tries the next access,
  the last one passes.
\<close>

definition consume :: "pystr \<Rightarrow> pyval \<Rightarrow> pystr" where
  "consume response_text chunk =
     (case by_attributes response_text chunk of
        Inr r \<Rightarrow> r
      | Inl e1 \<Rightarrow>
          (case by_keys response_text chunk of
             Inr r \<Rightarrow> r
           | Inl e2 \<Rightarrow>
               (case by_text response_text chunk of
                  Inr r \<Rightarrow> r
                | Inl e3 \<Rightarrow> response_text)))"

text \<open>The loop over the stream: an exception of the iterator leaves the loop.\<close>

fun consume_stream :: "pystr \<Rightarrow> event list \<Rightarrow> exn + pystr" where
  "consume_stream response_text [] = Inr response_text"
| "consume_stream response_text (Chunk chunk # rest) =
     consume_stream (consume response_text chunk) rest"
| "consume_stream response_text (StreamRaise e # rest) = Inl e"

definition groq_failed :: "('b, 'c) env \<Rightarrow> exn \<Rightarrow> exn" where
  "groq_failed env e =
     Exception (str ''Groq API call failed: '' @ str_exn e @ [10] @ format_exc env e)"

definition get_groq_response ::
  "('b, 'c) env \<Rightarrow> (pystr \<times> pystr) list \<Rightarrow> nat \<Rightarrow> world \<Rightarrow> (exn + pystr) \<times> world" where
  "get_groq_response env msgs max_tokens w =
     (let req = \<lparr>messages = msgs, max_completion_tokens = max_tokens\<rparr>;
          w1 = log (Create_call req) w
      in case chat_completions_create env req of
           Inl e \<Rightarrow> (Inl (groq_failed env e), w1)
         | Inr completion \<Rightarrow>
             (case consume_stream [] completion of
                Inl e \<Rightarrow> (Inl (groq_failed env e), w1)
              | Inr response_text \<Rightarrow> (Inr (py_strip response_text), w1)))"

section \<open>Analysis (model.py, analyze\_with\_llm)\<close>

record analysis =
  explanation :: pystr
  highlights :: "pystr list"

definition system_msg :: "pystr \<times> pystr" where
  "system_msg =
     (str ''system'',
      str ''You are a helpful medical assistant. Provide clear, non-alarming explanations for medical report contents and list key findings.'')"

definition explanation_prompt :: "pystr \<Rightarrow> pystr" where
  "explanation_prompt extracted_text =
     str ''Please read the following extracted medical report text and provide a plain-language explanation suitable for a patient. ''
     @ str ''Be concise and avoid medical jargon where possible.\<newline>\<newline>Report Text:\<newline>''
     @ extracted_text"

definition highlights_prompt :: "pystr \<Rightarrow> pystr" where
  "highlights_prompt extracted_text =
     str ''Please list up to 5 key findings or points from the report. Return each item on a new line.\<newline>\<newline>Report Text:\<newline>''
     @ extracted_text"

definition llm_failed :: "exn \<Rightarrow> exn" where
  "llm_failed e = Exception (str ''LLM analysis (Groq) failed: '' @ str_exn e)"

definition fallback_explanation :: pystr where
  "fallback_explanation = str ''Unable to generate explanation.''"

text \<open>
  The explanation request, then the highlights request; the second is not sent when
  the first raises.
\<close>

definition analyze_with_llm ::
  "('b, 'c) env \<Rightarrow> pystr \<Rightarrow> world \<Rightarrow> (exn + analysis) \<times> world" where
  "analyze_with_llm env extracted_text w =
     (case get_groq_response env
             [system_msg, (str ''user'', explanation_prompt extracted_text)] 512 w of
        (Inl e, w1) \<Rightarrow> (Inl (llm_failed e), w1)
      | (Inr explanation_text, w1) \<Rightarrow>
          (case get_groq_response env
                  [system_msg, (str ''user'', highlights_prompt extracted_text)] 256 w1 of
             (Inl e, w2) \<Rightarrow> (Inl (llm_failed e), w2)
           | (Inr highlights_text, w2) \<Rightarrow>
               (Inr \<lparr>explanation =
                       (if explanation_text \<noteq> [] then explanation_text
                        else fallback_explanation),
                     highlights = parse_highlights highlights_text\<rparr>,
                w2)))"

section \<open>The pipeline (model.py, process\_medical\_report)\<close>

record report = analysis +
  raw_text :: pystr

definition no_text_explanation :: pystr where
  "no_text_explanation = str ''No text could be extracted from the image.''"

definition process_medical_report ::
  "('b, 'c) env \<Rightarrow> pystr \<Rightarrow> world \<Rightarrow> (exn + report) \<times> world" where
  "process_medical_report env image_path w =
     (case extract_text_from_image env image_path w of
        (Inl e, w1) \<Rightarrow> (Inl e, w1)
      | (Inr extracted, w1) \<Rightarrow>
          if py_strip extracted = []
          then (Inr \<lparr>explanation = no_text_explanation, highlights = [], raw_text = []\<rparr>, w1)
          else
            (case analyze_with_llm env extracted w1 of
               (Inl e, w2) \<Rightarrow> (Inl e, w2)
             | (Inr a, w2) \<Rightarrow>
                 (Inr \<lparr>explanation = explanation a, highlights = highlights a,
                       raw_text = extracted\<rparr>,
                  w2)))"

section \<open>Construction of the processor (model.py, \_\_init\_\_)\<close>

definition key_not_found :: pystr where
  "key_not_found =
     str ''GROQ_API_KEY not found in environment variables. Please set it in your .env file.''"

text \<open>
  The OCR engine is constructed first, and an exception of its constructor leaves
  \<open>__init__\<close> as it is; then the key is read, and an absent or empty key raises; then
  the client is constructed, and its failure is raised as a \<open>ValueError\<close>.  The result
  is the key the client holds.
\<close>

definition MedicalReportProcessor_init ::
  "('b, 'c) env \<Rightarrow> world \<Rightarrow> (exn + pystr) \<times> world" where
  "MedicalReportProcessor_init env w =
     (let w1 = log PaddleOCR_new w in
      case PaddleOCR_init env of
        Some e \<Rightarrow> (Inl e, w1)
      | None \<Rightarrow>
          (case getenv_GROQ_API_KEY env of
             None \<Rightarrow> (Inl (ValueError key_not_found), w1)
           | Some groq_api_key \<Rightarrow>
               if groq_api_key = [] then (Inl (ValueError key_not_found), w1)
               else
                 (let w2 = log (Groq_new groq_api_key) w1 in
                  case Groq_init env groq_api_key of
                    Some e \<Rightarrow>
                      (Inl (ValueError (str ''Failed to initialize Groq client: '' @ str_exn e)),
                       w2)
                  | None \<Rightarrow> (Inr groq_api_key, w2))))"

section \<open>The request handler (app.py, analyze\_report)\<close>

text \<open>The upload: declared content type (possibly absent), file name and body.\<close>

record upload =
  content_type :: "pystr option"
  filename :: pystr
  contents :: "nat list"

text \<open>
  What the client receives: the JSON body of a success, with its \<open>success\<close> flag, or the
  error response of an \<open>HTTPException\<close> with status code and detail.
\<close>

datatype response = JSONResponse bool report | HTTPError nat pystr

definition allowed_types :: "pystr list" where
  "allowed_types =
     [str ''image/jpeg'', str ''image/jpg'', str ''image/png'', str ''image/bmp'',
      str ''image/tiff'']"

text \<open>
  The second component of \<open>os.path.splitext\<close> (POSIX): the part of the last path
  component from its last dot on, unless only dots precede that dot.
\<close>

definition splitext_ext :: "pystr \<Rightarrow> pystr" where
  "splitext_ext p =
     (let base = rev (takeWhile (\<lambda>c. c \<noteq> 47) (rev p)) in
      if 46 \<in> set base then
        (let ext = rev (takeWhile (\<lambda>c. c \<noteq> 46) (rev base));
             stem = take (length base - length ext - 1) base
         in if (\<exists>c \<in> set stem. c \<noteq> 46) then 46 # ext else [])
      else [])"

text \<open>Line 96: the extension of the uploaded name, or \<open>.jpg\<close> when it has none.\<close>

definition suffix :: "upload \<Rightarrow> pystr" where
  "suffix file =
     (if splitext_ext (filename file) \<noteq> [] then splitext_ext (filename file)
      else str ''.jpg'')"

text \<open>
  Lines 103-108: the processor is constructed when the global is still \<open>None\<close>; a
  \<open>ValueError\<close> of the constructor becomes a 500 with the same message, any other
  exception passes on, and in both cases the global stays \<open>None\<close>.
\<close>

definition ensure_processor :: "('b, 'c) env \<Rightarrow> world \<Rightarrow> (exn + unit) \<times> world" where
  "ensure_processor env w =
     (case processor w of
        Some p \<Rightarrow> (Inr (), w)
      | None \<Rightarrow>
          (case MedicalReportProcessor_init env w of
             (Inl (ValueError m), w1) \<Rightarrow> (Inl (HTTPException 500 m), w1)
           | (Inl e, w1) \<Rightarrow> (Inl e, w1)
           | (Inr key, w1) \<Rightarrow> (Inr (), w1\<lparr>processor := Some key\<rparr>)))"

text \<open>
  Lines 98-99: the bytes are written to the temporary file, which exists and is empty,
  and the file is closed.  A \<open>write\<close> that raises leaves in the file the bytes that
  reached it.
\<close>

definition store_upload ::
  "('b, 'c) env \<Rightarrow> pystr \<Rightarrow> nat list \<Rightarrow> world \<Rightarrow> (exn + unit) \<times> world" where
  "store_upload env name bytes w =
     (case write_outcome env name bytes of
        Some (e, written) \<Rightarrow> (Inl e, w\<lparr>files := (files w)(name \<mapsto> written)\<rparr>)
      | None \<Rightarrow>
          (let w1 = w\<lparr>files := (files w)(name \<mapsto> bytes)\<rparr> in
           case close_outcome env name of
             Some e \<Rightarrow> (Inl e, w1)
           | None \<Rightarrow> (Inr (), w1)))"

text \<open>Lines 102-111: the processor is made sure of, then the report is processed.\<close>

definition process_upload ::
  "('b, 'c) env \<Rightarrow> pystr \<Rightarrow> world \<Rightarrow> (exn + report) \<times> world" where
  "process_upload env name w =
     (case ensure_processor env w of
        (Inl e, w1) \<Rightarrow> (Inl e, w1)
      | (Inr u, w1) \<Rightarrow> process_medical_report env name w1)"

text \<open>
  The body of the \<open>try\<close>, lines 88-118, with the value of \<open>temp_file\<close> when the body is
  left: \<open>None\<close> when the body is too large or \<open>NamedTemporaryFile\<close> raises, the file
  that was created otherwise.
\<close>

definition try_body ::
  "('b, 'c) env \<Rightarrow> upload \<Rightarrow> world \<Rightarrow> (exn + report) \<times> world \<times> pystr option" where
  "try_body env file w =
     (if length (contents file) > 10 * 1024 * 1024
      then (Inl (HTTPException 400 (str ''File too large. Maximum size is 10MB'')), w, None)
      else
        (let w0 = log (NamedTemporaryFile_call (suffix file)) w in
         case NamedTemporaryFile env (files w) (suffix file) of
           Inl e \<Rightarrow> (Inl e, w0, None)
         | Inr name \<Rightarrow>
             (case store_upload env name (contents file)
                     (w0\<lparr>files := (files w0)(name \<mapsto> [])\<rparr>) of
                (Inl e, w1) \<Rightarrow> (Inl e, w1, Some name)
              | (Inr u, w1) \<Rightarrow>
                  (case process_upload env name w1 of
                     (r, w2) \<Rightarrow> (r, w2, Some name)))))"

text \<open>
  The \<open>finally\<close> clause, lines 135-141: an \<open>os.unlink\<close> that raises leaves the file where
  it is, and the exception is dropped.
\<close>

definition cleanup :: "('b, 'c) env \<Rightarrow> pystr option \<Rightarrow> world \<Rightarrow> world" where
  "cleanup env temp_file w =
     (case temp_file of
        None \<Rightarrow> w
      | Some name \<Rightarrow>
          if files w name \<noteq> None then
            (let w1 = log (Unlink_call name) w in
             if unlink_ok env name then w1\<lparr>files := (files w1)(name := None)\<rparr> else w1)
          else w)"

text \<open>The \<open>except\<close> clauses, lines 120-133, and the success response.\<close>

fun respond :: "exn + report \<Rightarrow> response" where
  "respond (Inr result) = JSONResponse True result"
| "respond (Inl (HTTPException code detail)) = HTTPError code detail"
| "respond (Inl e) =
     HTTPError 500 (str ''Failed to process medical report: '' @ str_exn e)"

definition invalid_file_type :: pystr where
  "invalid_file_type = str ''Invalid file type. Allowed types: '' @ join (str '', '') allowed_types"

definition analyze_report ::
  "('b, 'c) env \<Rightarrow> upload \<Rightarrow> world \<Rightarrow> response \<times> world" where
  "analyze_report env file w =
     (if (case content_type file of None \<Rightarrow> True | Some t \<Rightarrow> t \<notin> set allowed_types)
      then (HTTPError 400 invalid_file_type, w)
      else
        (case try_body env file w of
           (r, w1, temp_file) \<Rightarrow> (respond r, cleanup env temp_file w1)))"

section \<open>The wording of the specification\<close>


section \<open>Observations and sample inputs\<close>

text \<open>The calls of the record that reach the chat-completion service, and the OCR engine.\<close>

fun is_llm_call :: "call \<Rightarrow> bool" where
  "is_llm_call (Create_call req) = True"
| "is_llm_call c = False"

fun is_ocr_call :: "call \<Rightarrow> bool" where
  "is_ocr_call (Ocr_call path) = True"
| "is_ocr_call c = False"

text \<open>
  The two shapes of a fragment that lines 93-100 read: an object with
  \<open>choices[0].delta.content\<close>, and the same nesting as dictionaries.
\<close>

definition object_chunk :: "pystr \<Rightarrow> pyval" where
  "object_chunk s =
     PObj [(str ''choices'', PList [PObj [(str ''delta'', PObj [(str ''content'', PStr s)])]])]"

definition dict_chunk :: "pystr \<Rightarrow> pyval" where
  "dict_chunk s =
     PDict [(str ''choices'', PList [PDict [(str ''delta'', PDict [(str ''content'', PStr s)])]])]"

text \<open>
  Sample collaborators: a key is set, the engine and the client construct, every
  image verifies, the engine reports two regions with different confidence, the
  service streams \<open>Hel\<close>, a fragment without text and \<open>lo\<close> for the explanation and two
  findings for the highlights, a temporary file is created unless its suffix is
  longer than 240 characters, and \<open>write\<close>, \<open>close\<close> and \<open>os.unlink\<close> succeed.
\<close>

definition sample_env :: "(nat, nat) env" where
  "sample_env =
     \<lparr>getenv_GROQ_API_KEY = Some (str ''secret''),
      PaddleOCR_init = None,
      Groq_init = (\<lambda>key. None),
      Image_verify = (\<lambda>bytes. None),
      ocr_engine = (\<lambda>bytes. Inr (Some [Some [(0, (str ''Line A'', 99)), (1, (str ''Line B'', 3))]])),
      chat_completions_create =
        (\<lambda>req. if max_completion_tokens req = 512
               then Inr [Chunk (object_chunk (str ''Hel'')), Chunk PNone, Chunk (dict_chunk (str ''lo''))]
               else Inr [Chunk (object_chunk (str ''- finding one\<newline>- finding two''))]),
      format_exc = (\<lambda>e. []),
      NamedTemporaryFile =
        (\<lambda>fs suffix. if length suffix > 240
                      then Inl (Exception (str ''[Errno 36] File name too long''))
                      else Inr (str ''/tmp/tmpa'' @ suffix)),
      write_outcome = (\<lambda>name bytes. None),
      close_outcome = (\<lambda>name. None),
      unlink_ok = (\<lambda>path. True)\<rparr>"

definition sample_world :: world where
  "sample_world = \<lparr>files = (\<lambda>path. None), processor = None, trace = []\<rparr>"

definition sample_upload :: upload where
  "sample_upload =
     \<lparr>content_type = Some (str ''image/png''), filename = str ''report.png'',
      contents = [137, 80, 78, 71]\<rparr>"

text \<open>An upload whose name has an extension of 300 characters.\<close>

definition long_name_upload :: upload where
  "long_name_upload = sample_upload\<lparr>filename := str ''a.'' @ replicate 300 120\<rparr>"


section \<open>Properties of the string operations\<close>





lemmas string_eval = parse_highlights_def split_highlights_def splitlines_def split_def str_def
  py_strip_def strip_chars_def isspace_def linebreak_def decorative_def

lemma py_strip_Nil: "py_strip [] = []"
  by (simp add: py_strip_def)

lemma strip_chars_all:
  assumes "set h \<subseteq> set cs"
  shows "strip_chars cs h = []"
  using assms by (auto simp: strip_chars_def dest: set_dropWhileD)

lemma length_parse_highlights: "length (parse_highlights t) \<le> 5"
  by (simp add: parse_highlights_def Let_def)

lemma parse_highlights_fallback:
  "split_highlights t = [] \<Longrightarrow> t \<noteq> [] \<Longrightarrow> parse_highlights t = [t]"
  by (simp add: parse_highlights_def)

section \<open>Highlights parsing\<close>

text \<open>
  Claim C10.  In the newline branch the filter on blank lines runs before the strip of
  the decorative characters: a line of the response that is not blank and consists of
  decorative characters only passes the filter and becomes the empty string, so the
  list of highlights can contain empty strings.  The response of a lone hyphen, a line
  feed and \<open>foo\<close> parses to the empty string and \<open>foo\<close>.
\<close>

theorem decoration_only_line_gives_empty_item:
  "(10 \<in> set t \<and> h \<in> set (splitlines t) \<and> py_strip h \<noteq> [] \<and> set h \<subseteq> set decorative
      \<longrightarrow> [] \<in> set (split_highlights t))
   \<and> parse_highlights (str ''-\<newline>foo'') = [[], str ''foo'']"
proof (intro conjI impI)
  assume a: "10 \<in> set t \<and> h \<in> set (splitlines t) \<and> py_strip h \<noteq> [] \<and> set h \<subseteq> set decorative"
  then have "t \<noteq> []" by auto
  with a have "split_highlights t =
      map (strip_chars decorative) (filter (\<lambda>h. py_strip h \<noteq> []) (splitlines t))"
    by (simp add: split_highlights_def)
  moreover have "h \<in> set (filter (\<lambda>h. py_strip h \<noteq> []) (splitlines t))" using a by simp
  moreover have "strip_chars decorative h = []" using a by (simp add: strip_chars_all)
  ultimately show "[] \<in> set (split_highlights t)" by (metis image_eqI set_map)
next
  show "parse_highlights (str ''-\<newline>foo'') = [[], str ''foo'']"
    by (simp add: string_eval)
qed

theorem decoration_only_line_witness:
  "10 \<in> set (str ''-\<newline>foo'') \<and> str ''-'' \<in> set (splitlines (str ''-\<newline>foo''))
   \<and> py_strip (str ''-'') \<noteq> [] \<and> set (str ''-'') \<subseteq> set decorative
   \<and> [] \<in> set (split_highlights (str ''-\<newline>foo''))"
proof -
  have h: "10 \<in> set (str ''-\<newline>foo'') \<and> str ''-'' \<in> set (splitlines (str ''-\<newline>foo''))
   \<and> py_strip (str ''-'') \<noteq> [] \<and> set (str ''-'') \<subseteq> set decorative"
    by (simp add: string_eval)
  with decoration_only_line_gives_empty_item [of "str ''-\<newline>foo''" "str ''-''"]
  show ?thesis by blast
qed

section \<open>The analyzer\<close>

lemma get_groq_response_world:
  "snd (get_groq_response env msgs n w) =
     log (Create_call \<lparr>messages = msgs, max_completion_tokens = n\<rparr>) w"
  by (simp add: get_groq_response_def Let_def split: sum.splits)

lemma analyze_with_llm_Inr:
  assumes "analyze_with_llm env x w = (Inr a, w')"
  obtains e h w1 where
    "get_groq_response env [system_msg, (str ''user'', explanation_prompt x)] 512 w = (Inr e, w1)"
    "get_groq_response env [system_msg, (str ''user'', highlights_prompt x)] 256 w1 = (Inr h, w')"
    "explanation a = (if e \<noteq> [] then e else fallback_explanation)"
    "highlights a = parse_highlights h"
  using assms unfolding analyze_with_llm_def
  by (auto split: prod.splits sum.splits)

lemmas stream_eval = get_groq_response_def Let_def consume_def by_attributes_def
  by_keys_def by_text_def choices0_def and_then_def object_chunk_def dict_chunk_def
  getattr_or_None_def str_def py_strip_def isspace_def

lemma sample_explanation:
  "get_groq_response sample_env msgs 512 w = (Inr (str ''Hello''), log (Create_call \<lparr>messages = msgs, max_completion_tokens = 512\<rparr>) w)"
  by (simp add: sample_env_def stream_eval)

lemma sample_highlights:
  "get_groq_response sample_env msgs 256 w =
     (Inr (str ''- finding one\<newline>- finding two''),
      log (Create_call \<lparr>messages = msgs, max_completion_tokens = 256\<rparr>) w)"
  by (simp add: sample_env_def stream_eval)

lemma parse_two_findings:
  "parse_highlights (str ''- finding one\<newline>- finding two'') =
     [str ''finding one'', str ''finding two'']"
  by (simp add: string_eval)

lemma sample_analysis:
  "fst (analyze_with_llm sample_env x w) =
     Inr \<lparr>explanation = str ''Hello'',
          highlights = [str ''finding one'', str ''finding two'']\<rparr>"
proof -
  have "str ''Hello'' \<noteq> []" by (simp add: str_def)
  then show ?thesis
    by (simp add: analyze_with_llm_def sample_explanation sample_highlights parse_two_findings)
qed

text \<open>
  Claim C8.  Whatever the service returns for the highlights request, the list of
  highlights has at most five items, for the parsing alone and for every result of
  \<open>analyze_with_llm\<close>; and when the splitting leaves nothing of a response that is not
  empty, the list is the one-element list of the response as it came.
\<close>

theorem highlights_at_most_five:
  "length (parse_highlights t) \<le> 5
   \<and> (split_highlights t = [] \<and> t \<noteq> [] \<longrightarrow> parse_highlights t = [t])
   \<and> (fst (analyze_with_llm env x w) = Inr a \<longrightarrow> length (highlights a) \<le> 5)"
proof (intro conjI impI)
  show "length (parse_highlights t) \<le> 5" by (rule length_parse_highlights)
next
  assume "split_highlights t = [] \<and> t \<noteq> []"
  then show "parse_highlights t = [t]" by (simp add: parse_highlights_fallback)
next
  assume "fst (analyze_with_llm env x w) = Inr a"
  then have "analyze_with_llm env x w = (Inr a, snd (analyze_with_llm env x w))"
    by (metis prod.collapse)
  then obtain h where "highlights a = parse_highlights h"
    by (rule analyze_with_llm_Inr)
  then show "length (highlights a) \<le> 5" by (simp add: length_parse_highlights)
qed

theorem highlights_at_most_five_witness:
  "(split_highlights (str '','') = [] \<and> str '','' \<noteq> [])
   \<and> parse_highlights (str '','') = [str '','']
   \<and> fst (analyze_with_llm sample_env (str ''text'') sample_world) =
       Inr \<lparr>explanation = str ''Hello'',
            highlights = [str ''finding one'', str ''finding two'']\<rparr>
   \<and> length (highlights \<lparr>explanation = str ''Hello'',
            highlights = [str ''finding one'', str ''finding two'']\<rparr>) \<le> 5"
proof -
  have 1: "split_highlights (str '','') = [] \<and> str '','' \<noteq> []"
    by (simp add: string_eval)
  have 2: "fst (analyze_with_llm sample_env (str ''text'') sample_world) =
       Inr \<lparr>explanation = str ''Hello'',
            highlights = [str ''finding one'', str ''finding two'']\<rparr>"
    by (rule sample_analysis)
  from 1 2 highlights_at_most_five [where t = "str '',''" and env = sample_env
      and x = "str ''text''" and w = sample_world
      and a = "\<lparr>explanation = str ''Hello'',
            highlights = [str ''finding one'', str ''finding two'']\<rparr>"]
  show ?thesis by blast
qed

section \<open>The two branches of the highlights parsing\<close>


















text \<open>
  The strip set of the source has U+00E2, U+20AC and U+00A2 where the specification
  has the bullet glyph and the middle dot: a line that begins with the bullet glyph
  keeps it.
\<close>

lemma bullet_glyph_is_kept:
  "parse_highlights [8226, 32, 97, 10, 8226, 32, 98] = [[8226, 32, 97], [8226, 32, 98]]"
  by (simp add: string_eval)

section \<open>Text extraction\<close>

lemma extract_text_ok:
  assumes "Image_verify env (files w p) = None" and "ocr_engine env (files w p) = Inr result"
  shows "extract_text_from_image env p w =
           (Inr (flatten_ocr result), log (Ocr_call p) (log (Verify_call p) w))"
  using assms by (simp add: extract_text_from_image_def Let_def)

lemma split_from_append:
  "sep \<notin> set x \<Longrightarrow> split_from sep cur (x @ ys) = split_from sep (cur @ x) ys"
  by (induction x arbitrary: cur) auto

lemma split_from_join:
  assumes "xs \<noteq> []" and "\<forall>x \<in> set xs. sep \<notin> set x"
  shows "split_from sep cur (join [sep] xs) = (cur @ hd xs) # tl xs"
  using assms
proof (induction xs arbitrary: cur)
  case Nil
  then show ?case by simp
next
  case (Cons x xs)
  show ?case
  proof (cases xs)
    case Nil
    then show ?thesis using Cons.prems split_from_append [of sep x cur "[]"] by simp
  next
    case (Cons y ys)
    have "split_from sep cur (x @ [sep] @ join [sep] (y # ys)) =
          split_from sep (cur @ x) ([sep] @ join [sep] (y # ys))"
      using Cons.prems by (intro split_from_append) simp
    also have "\<dots> = (cur @ x) # split_from sep [] (join [sep] (y # ys))" by simp
    also have "split_from sep [] (join [sep] (y # ys)) = ([] @ hd (y # ys)) # tl (y # ys)"
      using Cons.IH [of "[]"] Cons.prems Cons by simp
    finally show ?thesis using Cons by simp
  qed
qed

lemma split_join:
  "xs \<noteq> [] \<Longrightarrow> \<forall>x \<in> set xs. sep \<notin> set x \<Longrightarrow> split sep (join [sep] xs) = xs"
  using split_from_join [of xs sep "[]"] by (simp add: split_def)

lemma flatten_ocr_regions:
  "lines \<noteq> [] \<Longrightarrow>
   flatten_ocr (Some (Some lines # pages)) = join [10] (map (\<lambda>line. fst (snd line)) lines)"
  by (cases lines) simp_all

text \<open>
  Claim C5.  When the image verifies and the engine returns, \<open>extract_text_from_image\<close>
  returns the empty string, as a success, when the engine reports no regions (no
  result, no page, or a first page that is \<open>None\<close> or empty), and otherwise the texts of
  all regions of the first page joined by a line feed, in the order of the engine:
  the result is a function of the texts alone, whatever the boxes and confidences,
  and splitting it at the line feeds gives back the list of texts when no text
  contains one.  For the texts \<open>Line A\<close> and \<open>Line B\<close> the result is the two lines.
\<close>

theorem extracted_text_is_joined_regions:
  assumes "Image_verify env (files w p) = None" and "ocr_engine env (files w p) = Inr result"
  shows "(result = None \<or> result = Some [] \<or> result = Some (None # pages)
            \<or> result = Some (Some [] # pages)
          \<longrightarrow> fst (extract_text_from_image env p w) = Inr [])
       \<and> (result = Some (Some lines # pages) \<and> lines \<noteq> []
          \<longrightarrow> fst (extract_text_from_image env p w) =
                Inr (join [10] (map (\<lambda>line. fst (snd line)) lines)))
       \<and> (result = Some (Some lines # pages) \<and> lines \<noteq> []
            \<and> (\<forall>line \<in> set lines. 10 \<notin> set (fst (snd line)))
          \<longrightarrow> (\<exists>text. fst (extract_text_from_image env p w) = Inr text
                \<and> split 10 text = map (\<lambda>line. fst (snd line)) lines))
       \<and> (result = Some (Some lines # pages)
            \<and> map (\<lambda>line. fst (snd line)) lines = [str ''Line A'', str ''Line B'']
          \<longrightarrow> fst (extract_text_from_image env p w) = Inr (str ''Line A\<newline>Line B''))"
proof -
  note ok = extract_text_ok [OF assms]
  have 1: "fst (extract_text_from_image env p w) = Inr []"
    if "result = None \<or> result = Some [] \<or> result = Some (None # pages)
            \<or> result = Some (Some [] # pages)"
    using that ok by auto
  have 2: "fst (extract_text_from_image env p w) =
                Inr (join [10] (map (\<lambda>line. fst (snd line)) lines))"
    if "result = Some (Some lines # pages) \<and> lines \<noteq> []"
    using that ok by (simp add: flatten_ocr_regions)
  have 3: "\<exists>text. fst (extract_text_from_image env p w) = Inr text
                \<and> split 10 text = map (\<lambda>line. fst (snd line)) lines"
    if h: "result = Some (Some lines # pages) \<and> lines \<noteq> []
            \<and> (\<forall>line \<in> set lines. 10 \<notin> set (fst (snd line)))"
  proof -
    have "split 10 (join [10] (map (\<lambda>line. fst (snd line)) lines)) =
          map (\<lambda>line. fst (snd line)) lines"
      using h by (intro split_join) auto
    with 2 h show ?thesis by simp
  qed
  have 4: "fst (extract_text_from_image env p w) = Inr (str ''Line A\<newline>Line B'')"
    if h: "result = Some (Some lines # pages)
            \<and> map (\<lambda>line. fst (snd line)) lines = [str ''Line A'', str ''Line B'']"
  proof -
    from h have "lines \<noteq> []" by auto
    with 2 h have "fst (extract_text_from_image env p w) =
        Inr (join [10] [str ''Line A'', str ''Line B''])" by simp
    then show ?thesis by (simp add: str_def)
  qed
  from 1 2 3 4 show ?thesis by blast
qed

theorem extracted_text_witness:
  "Image_verify sample_env (files sample_world (str ''scan.png'')) = None
   \<and> ocr_engine sample_env (files sample_world (str ''scan.png'')) =
         Inr (Some [Some [(0, (str ''Line A'', 99)), (1, (str ''Line B'', 3))]])
   \<and> list_all (\<lambda>line. 10 \<notin> set (fst (snd line)))
         [(0 :: nat, (str ''Line A'', 99 :: nat)), (1, (str ''Line B'', 3))]
   \<and> fst (extract_text_from_image sample_env (str ''scan.png'') sample_world) =
         Inr (str ''Line A\<newline>Line B'')
   \<and> split 10 (str ''Line A\<newline>Line B'') = [str ''Line A'', str ''Line B'']
   \<and> ocr_engine (sample_env\<lparr>ocr_engine := (\<lambda>bytes. Inr (Some [None]))\<rparr>)
         (files sample_world (str ''scan.png'')) = Inr (Some [None])
   \<and> fst (extract_text_from_image (sample_env\<lparr>ocr_engine := (\<lambda>bytes. Inr (Some [None]))\<rparr>)
         (str ''scan.png'') sample_world) = Inr []"
proof -
  let ?L = "[(0 :: nat, (str ''Line A'', 99 :: nat)), (1, (str ''Line B'', 3))]"
  let ?e = "sample_env\<lparr>ocr_engine := (\<lambda>bytes. Inr (Some [None]))\<rparr>"
  let ?p = "str ''scan.png''"
  have v: "Image_verify sample_env (files sample_world ?p) = None"
    by (simp add: sample_env_def)
  have o: "ocr_engine sample_env (files sample_world ?p) = Inr (Some [Some ?L])"
    by (simp add: sample_env_def)
  have n: "\<forall>line \<in> set ?L. 10 \<notin> set (fst (snd line))" by (simp add: str_def)
  have n': "list_all (\<lambda>line. 10 \<notin> set (fst (snd line))) ?L"
    using n by (simp only: list_all_iff)
  have m: "map (\<lambda>line. fst (snd line)) ?L = [str ''Line A'', str ''Line B'']" by simp
  have l: "?L \<noteq> []" by simp
  note T = extracted_text_is_joined_regions [OF v o, of "[]" ?L]
  have r: "fst (extract_text_from_image sample_env ?p sample_world) =
         Inr (str ''Line A\<newline>Line B'')"
    using T m by blast
  have "\<exists>text. fst (extract_text_from_image sample_env ?p sample_world) = Inr text
          \<and> split 10 text = map (\<lambda>line. fst (snd line)) ?L"
    using T l n by blast
  then have s: "split 10 (str ''Line A\<newline>Line B'') = [str ''Line A'', str ''Line B'']"
    unfolding r m by blast
  have v2: "Image_verify ?e (files sample_world ?p) = None"
    by (simp add: sample_env_def)
  have o2: "ocr_engine ?e (files sample_world ?p) = Inr (Some [None])" by simp
  have r2: "fst (extract_text_from_image ?e ?p sample_world) = Inr []"
    using extracted_text_is_joined_regions [OF v2 o2, of "[]"] by blast
  show ?thesis by (intro conjI v o n' r s o2 r2)
qed

section \<open>The pipeline\<close>

lemma py_strip_eq_Nil: "py_strip s = [] \<longleftrightarrow> (\<forall>c \<in> set s. isspace c)"
proof
  assume "py_strip s = []"
  then have "\<forall>c \<in> set (dropWhile isspace s). isspace c"
    by (simp add: py_strip_def dropWhile_eq_Nil_conv)
  then have "dropWhile isspace s = []"
    by (metis hd_dropWhile hd_in_set)
  then show "\<forall>c \<in> set s. isspace c" by (simp add: dropWhile_eq_Nil_conv)
next
  assume "\<forall>c \<in> set s. isspace c"
  then have "dropWhile isspace s = []" by (simp add: dropWhile_eq_Nil_conv)
  then show "py_strip s = []" unfolding py_strip_def by (simp only: rev.simps dropWhile.simps)
qed

lemma extract_llm_calls:
  "filter is_llm_call (trace (snd (extract_text_from_image env p w))) =
   filter is_llm_call (trace w)"
  by (simp add: extract_text_from_image_def log_def Let_def split: option.splits sum.splits)

lemma process_no_text:
  assumes "fst (extract_text_from_image env p w) = Inr text" and "py_strip text = []"
  shows "process_medical_report env p w =
           (Inr \<lparr>explanation = no_text_explanation, highlights = [], raw_text = []\<rparr>,
            snd (extract_text_from_image env p w))"
  using assms unfolding process_medical_report_def
  by (cases "extract_text_from_image env p w") simp

lemma process_extract_fails:
  assumes "fst (extract_text_from_image env p w) = Inl e"
  shows "process_medical_report env p w = (Inl e, snd (extract_text_from_image env p w))"
  using assms unfolding process_medical_report_def
  by (cases "extract_text_from_image env p w") simp

lemma process_text:
  assumes "fst (extract_text_from_image env p w) = Inr text" and "py_strip text \<noteq> []"
  shows "process_medical_report env p w =
           (case analyze_with_llm env text (snd (extract_text_from_image env p w)) of
              (Inl e, w2) \<Rightarrow> (Inl e, w2)
            | (Inr a, w2) \<Rightarrow>
                (Inr \<lparr>explanation = explanation a, highlights = highlights a,
                      raw_text = text\<rparr>, w2))"
  using assms unfolding process_medical_report_def
  by (cases "extract_text_from_image env p w") simp

lemma analyze_llm_calls:
  "length (filter is_llm_call (trace (snd (analyze_with_llm env x w)))) >
   length (filter is_llm_call (trace w))"
proof -
  let ?r1 = "get_groq_response env [system_msg, (str ''user'', explanation_prompt x)] 512 w"
  let ?w1 = "snd ?r1"
  let ?r2 = "get_groq_response env [system_msg, (str ''user'', highlights_prompt x)] 256 ?w1"
  have w1: "length (filter is_llm_call (trace ?w1)) = Suc (length (filter is_llm_call (trace w)))"
    by (simp add: get_groq_response_world log_def)
  have w2: "length (filter is_llm_call (trace (snd ?r2))) =
              Suc (length (filter is_llm_call (trace ?w1)))"
    by (simp only: get_groq_response_world) (simp add: log_def)
  have "snd (analyze_with_llm env x w) = ?w1 \<or> snd (analyze_with_llm env x w) = snd ?r2"
    unfolding analyze_with_llm_def
    by (cases ?r1; cases ?r2) (auto split: sum.splits)
  with w1 w2 show ?thesis by auto
qed

lemma process_text_llm_calls:
  assumes "fst (extract_text_from_image env p w) = Inr text" and "py_strip text \<noteq> []"
  shows "filter is_llm_call (trace (snd (process_medical_report env p w))) \<noteq>
         filter is_llm_call (trace w)"
proof -
  let ?w1 = "snd (extract_text_from_image env p w)"
  have "snd (process_medical_report env p w) = snd (analyze_with_llm env text ?w1)"
    unfolding process_text [OF assms]
    by (cases "analyze_with_llm env text ?w1") (auto split: sum.splits)
  moreover have "length (filter is_llm_call (trace (snd (analyze_with_llm env text ?w1)))) >
     length (filter is_llm_call (trace w))"
    using analyze_llm_calls [where env = env and x = "text" and w = ?w1] by (simp add: extract_llm_calls)
  ultimately show ?thesis by auto
qed

lemma sample_extract:
  "fst (extract_text_from_image sample_env p w) = Inr (str ''Line A\<newline>Line B'')"
proof -
  have "extract_text_from_image sample_env p w =
          (Inr (flatten_ocr (Some [Some [(0 :: nat, (str ''Line A'', 99 :: nat)),
                                         (1, (str ''Line B'', 3))]])),
           log (Ocr_call p) (log (Verify_call p) w))"
    by (rule extract_text_ok) (simp_all add: sample_env_def)
  then show ?thesis by (simp add: str_def)
qed

lemma sample_text_not_blank: "py_strip (str ''Line A\<newline>Line B'') \<noteq> []"
  by (simp add: str_def py_strip_def isspace_def)

lemma sample_process:
  "fst (process_medical_report sample_env p w) =
     Inr \<lparr>explanation = str ''Hello'',
          highlights = [str ''finding one'', str ''finding two''],
          raw_text = str ''Line A\<newline>Line B''\<rparr>"
proof -
  let ?w1 = "snd (extract_text_from_image sample_env p w)"
  obtain w2 where "analyze_with_llm sample_env (str ''Line A\<newline>Line B'') ?w1 =
     (Inr \<lparr>explanation = str ''Hello'',
          highlights = [str ''finding one'', str ''finding two'']\<rparr>, w2)"
    by (metis prod.collapse sample_analysis)
  then show ?thesis
    unfolding process_text [OF sample_extract sample_text_not_blank] by simp
qed

text \<open>
  Claim C2.  When the extracted text is empty, \<open>process_medical_report\<close> returns the
  empty raw text, the canned explanation and no highlights, and the record of calls
  has no new call to the chat-completion service; a run that does call the service
  extracted a text that is not empty.  In particular this is the result when the
  image verifies and the engine reports no regions.
\<close>

theorem empty_text_skips_analysis:
  "(fst (extract_text_from_image env p w) = Inr [] \<longrightarrow>
      fst (process_medical_report env p w) =
        Inr \<lparr>explanation = no_text_explanation, highlights = [], raw_text = []\<rparr>
      \<and> filter is_llm_call (trace (snd (process_medical_report env p w))) =
        filter is_llm_call (trace w))
   \<and> (filter is_llm_call (trace (snd (process_medical_report env p w))) \<noteq>
        filter is_llm_call (trace w) \<longrightarrow>
      (\<exists>text. fst (extract_text_from_image env p w) = Inr text \<and> text \<noteq> []))
   \<and> (Image_verify env (files w p) = None
        \<and> (ocr_engine env (files w p) = Inr None \<or> ocr_engine env (files w p) = Inr (Some [])
           \<or> ocr_engine env (files w p) = Inr (Some (None # pages))
           \<or> ocr_engine env (files w p) = Inr (Some (Some [] # pages))) \<longrightarrow>
      fst (process_medical_report env p w) =
        Inr \<lparr>explanation = no_text_explanation, highlights = [], raw_text = []\<rparr>
      \<and> filter is_llm_call (trace (snd (process_medical_report env p w))) =
        filter is_llm_call (trace w))
   \<and> no_text_explanation = str ''No text could be extracted from the image.''"
proof -
  have a: "fst (process_medical_report env p w) =
        Inr \<lparr>explanation = no_text_explanation, highlights = [], raw_text = []\<rparr>
      \<and> filter is_llm_call (trace (snd (process_medical_report env p w))) =
        filter is_llm_call (trace w)"
    if "fst (extract_text_from_image env p w) = Inr []"
    using process_no_text [OF that py_strip_Nil] by (simp add: extract_llm_calls)
  have b: "\<exists>text. fst (extract_text_from_image env p w) = Inr text \<and> text \<noteq> []"
    if h: "filter is_llm_call (trace (snd (process_medical_report env p w))) \<noteq>
        filter is_llm_call (trace w)"
  proof (cases "fst (extract_text_from_image env p w)")
    case (Inl e)
    from process_extract_fails [OF Inl] h show ?thesis by (simp add: extract_llm_calls)
  next
    case (Inr t)
    have "t \<noteq> []"
    proof
      assume "t = []"
      with Inr a h show False by simp
    qed
    with Inr show ?thesis by simp
  qed
  have c: "fst (extract_text_from_image env p w) = Inr []"
    if "Image_verify env (files w p) = None
        \<and> (ocr_engine env (files w p) = Inr None \<or> ocr_engine env (files w p) = Inr (Some [])
           \<or> ocr_engine env (files w p) = Inr (Some (None # pages))
           \<or> ocr_engine env (files w p) = Inr (Some (Some [] # pages)))"
    using that by (auto simp: extract_text_ok)
  from a b c show ?thesis unfolding no_text_explanation_def by blast
qed

theorem empty_text_witness:
  "fst (extract_text_from_image (sample_env\<lparr>ocr_engine := (\<lambda>bytes. Inr (Some [None]))\<rparr>)
         (str ''scan.png'') sample_world) = Inr []
   \<and> fst (process_medical_report (sample_env\<lparr>ocr_engine := (\<lambda>bytes. Inr (Some [None]))\<rparr>)
         (str ''scan.png'') sample_world) =
       Inr \<lparr>explanation = no_text_explanation, highlights = [], raw_text = []\<rparr>
   \<and> filter is_llm_call (trace (snd (process_medical_report
         (sample_env\<lparr>ocr_engine := (\<lambda>bytes. Inr (Some [None]))\<rparr>)
         (str ''scan.png'') sample_world))) = filter is_llm_call (trace sample_world)
   \<and> Image_verify (sample_env\<lparr>ocr_engine := (\<lambda>bytes. Inr (Some [None]))\<rparr>)
         (files sample_world (str ''scan.png'')) = None
   \<and> ocr_engine (sample_env\<lparr>ocr_engine := (\<lambda>bytes. Inr (Some [None]))\<rparr>)
         (files sample_world (str ''scan.png'')) = Inr (Some (None # []))
   \<and> filter is_llm_call (trace (snd (process_medical_report sample_env
         (str ''scan.png'') sample_world))) \<noteq> filter is_llm_call (trace sample_world)
   \<and> (\<exists>text. fst (extract_text_from_image sample_env (str ''scan.png'') sample_world) = Inr text
         \<and> text \<noteq> [])"
proof -
  let ?e = "sample_env\<lparr>ocr_engine := (\<lambda>bytes. Inr (Some [None]))\<rparr>"
  let ?p = "str ''scan.png''"
  have v: "Image_verify ?e (files sample_world ?p) = None" by (simp add: sample_env_def)
  have o: "ocr_engine ?e (files sample_world ?p) = Inr (Some (None # []))" by simp
  have x: "fst (extract_text_from_image ?e ?p sample_world) = Inr []"
    using extract_text_ok [OF v o] by simp
  note T = empty_text_skips_analysis [of ?e ?p sample_world "[]"]
  note T1 = T [THEN conjunct1, THEN mp, OF x]
  have c: "filter is_llm_call (trace (snd (process_medical_report sample_env ?p sample_world)))
        \<noteq> filter is_llm_call (trace sample_world)"
    by (rule process_text_llm_calls [OF sample_extract sample_text_not_blank])
  note S = empty_text_skips_analysis [of sample_env ?p sample_world "[]"]
  note S2 = S [THEN conjunct2, THEN conjunct1, THEN mp, OF c]
  show ?thesis
    by (intro conjI x T1 [THEN conjunct1] T1 [THEN conjunct2] v o c S2)
qed

text \<open>
  Claim C9.  A text that is not empty and consists of whitespace only is treated as no
  text: the result has the empty raw text, the canned explanation and no highlights,
  and the service is not called.  Hence the raw text of every result is empty or
  contains a character that is not whitespace.
\<close>

theorem whitespace_text_is_no_text:
  "(fst (extract_text_from_image env p w) = Inr text \<and> text \<noteq> [] \<and> (\<forall>c \<in> set text. isspace c)
      \<longrightarrow> fst (process_medical_report env p w) =
            Inr \<lparr>explanation = no_text_explanation, highlights = [], raw_text = []\<rparr>
          \<and> filter is_llm_call (trace (snd (process_medical_report env p w))) =
            filter is_llm_call (trace w))
   \<and> (fst (process_medical_report env p w) = Inr r
      \<longrightarrow> raw_text r = [] \<or> (\<exists>c \<in> set (raw_text r). \<not> isspace c))"
proof (rule conjI; rule impI)
  assume h: "fst (extract_text_from_image env p w) = Inr text \<and> text \<noteq> []
      \<and> (\<forall>c \<in> set text. isspace c)"
  then have b: "py_strip text = []" by (simp add: py_strip_eq_Nil)
  have "process_medical_report env p w =
           (Inr \<lparr>explanation = no_text_explanation, highlights = [], raw_text = []\<rparr>,
            snd (extract_text_from_image env p w))"
    by (rule process_no_text [OF conjunct1 [OF h] b])
  then show "fst (process_medical_report env p w) =
            Inr \<lparr>explanation = no_text_explanation, highlights = [], raw_text = []\<rparr>
          \<and> filter is_llm_call (trace (snd (process_medical_report env p w))) =
            filter is_llm_call (trace w)"
    by (simp add: extract_llm_calls)
next
  assume r: "fst (process_medical_report env p w) = Inr r"
  show "raw_text r = [] \<or> (\<exists>c \<in> set (raw_text r). \<not> isspace c)"
  proof (cases "fst (extract_text_from_image env p w)")
    case (Inl e)
    from process_extract_fails [OF Inl] r show ?thesis by simp
  next
    case (Inr t)
    show ?thesis
    proof (cases "py_strip t = []")
      case True
      from process_no_text [OF Inr True] r show ?thesis by auto
    next
      case False
      then have ex: "\<exists>c \<in> set t. \<not> isspace c" by (simp add: py_strip_eq_Nil)
      have "raw_text r = t"
        using r unfolding process_text [OF Inr False]
        by (cases "analyze_with_llm env t (snd (extract_text_from_image env p w))")
           (auto split: sum.splits)
      with ex show ?thesis by simp
    qed
  qed
qed

theorem whitespace_text_witness:
  "fst (extract_text_from_image
         (sample_env\<lparr>ocr_engine := (\<lambda>bytes. Inr (Some [Some [(0, ([32], 50)), (1, ([9], 50))]]))\<rparr>)
         (str ''scan.png'') sample_world) = Inr [32, 10, 9]
   \<and> [32, 10, 9 :: nat] \<noteq> []
   \<and> list_all isspace [32, 10, 9]
   \<and> fst (process_medical_report
         (sample_env\<lparr>ocr_engine := (\<lambda>bytes. Inr (Some [Some [(0, ([32], 50)), (1, ([9], 50))]]))\<rparr>)
         (str ''scan.png'') sample_world) =
       Inr \<lparr>explanation = no_text_explanation, highlights = [], raw_text = []\<rparr>
   \<and> fst (process_medical_report sample_env (str ''scan.png'') sample_world) =
       Inr \<lparr>explanation = str ''Hello'',
            highlights = [str ''finding one'', str ''finding two''],
            raw_text = str ''Line A\<newline>Line B''\<rparr>
   \<and> (\<exists>c \<in> set (str ''Line A\<newline>Line B''). \<not> isspace c)"
proof -
  let ?e = "sample_env\<lparr>ocr_engine :=
              (\<lambda>bytes. Inr (Some [Some [(0, ([32], 50)), (1, ([9], 50))]]))\<rparr>"
  let ?p = "str ''scan.png''"
  let ?r = "\<lparr>explanation = str ''Hello'',
            highlights = [str ''finding one'', str ''finding two''],
            raw_text = str ''Line A\<newline>Line B''\<rparr>"
  have v: "Image_verify ?e (files sample_world ?p) = None" by (simp add: sample_env_def)
  have o: "ocr_engine ?e (files sample_world ?p) =
             Inr (Some [Some [(0 :: nat, ([32], 50 :: nat)), (1, ([9], 50))]])" by simp
  have x: "fst (extract_text_from_image ?e ?p sample_world) = Inr [32, 10, 9]"
    using extract_text_ok [OF v o] by simp
  have n: "[32, 10, 9 :: nat] \<noteq> []" by simp
  have s: "\<forall>c \<in> set [32, 10, 9]. isspace c" by (simp add: isspace_def)
  have s': "list_all isspace [32, 10, 9]" using s by (simp only: list_all_iff)
  note T = whitespace_text_is_no_text [of ?e ?p sample_world "[32, 10, 9]"]
  note T1 = T [THEN conjunct1, THEN mp, OF conjI [OF x conjI [OF n s]]]
  have q: "fst (process_medical_report sample_env ?p sample_world) = Inr ?r"
    by (rule sample_process)
  note S = whitespace_text_is_no_text [of sample_env ?p sample_world _ ?r]
  have "raw_text ?r = [] \<or> (\<exists>c \<in> set (raw_text ?r). \<not> isspace c)"
    by (rule S [THEN conjunct2, THEN mp, OF q])
  moreover have "raw_text ?r \<noteq> []" by (simp add: str_def)
  ultimately have b: "\<exists>c \<in> set (str ''Line A\<newline>Line B''). \<not> isspace c" by simp
  show ?thesis by (intro conjI x n s' T1 [THEN conjunct1] q b)
qed

section \<open>Streaming\<close>


















text \<open>
  The plain text field is read only after the access by keys has raised: a dictionary
  that has nothing but a text field contributes nothing, since the access by keys
  then ends without an exception.
\<close>

lemma text_field_after_failed_keys:
  "consume [] (PDict [(str ''choices'', PList [PNone]), (str ''text'', PStr s)]) = s"
  by (cases "s = []")
     (simp_all add: consume_def by_attributes_def by_keys_def by_text_def choices0_def
        and_then_def str_def)

lemma text_field_alone:
  "consume [] (PDict [(str ''text'', PStr s)]) = []"
  by (simp add: consume_def by_attributes_def by_keys_def and_then_def str_def)

section \<open>The request handler\<close>

lemma files_log: "files (log c w) = files w"
  by (simp add: log_def)

lemma processor_log: "processor (log c w) = processor w"
  by (simp add: log_def)


lemma extract_files: "files (snd (extract_text_from_image env p w)) = files w"
  by (simp add: extract_text_from_image_def Let_def files_log split: option.splits sum.splits)

lemma get_groq_response_files: "files (snd (get_groq_response env msgs n w)) = files w"
  by (simp add: get_groq_response_world files_log)

lemma analyze_files: "files (snd (analyze_with_llm env x w)) = files w"
proof -
  let ?r1 = "get_groq_response env [system_msg, (str ''user'', explanation_prompt x)] 512 w"
  let ?r2 = "get_groq_response env [system_msg, (str ''user'', highlights_prompt x)] 256 (snd ?r1)"
  have "snd (analyze_with_llm env x w) = snd ?r1 \<or> snd (analyze_with_llm env x w) = snd ?r2"
    unfolding analyze_with_llm_def
    by (cases ?r1; cases ?r2) (auto split: sum.splits)
  then show ?thesis by (auto simp: get_groq_response_files)
qed

lemma process_files: "files (snd (process_medical_report env p w)) = files w"
proof (cases "fst (extract_text_from_image env p w)")
  case (Inl e)
  then show ?thesis by (simp add: process_extract_fails extract_files)
next
  case (Inr t)
  show ?thesis
  proof (cases "py_strip t = []")
    case True
    with Inr show ?thesis by (simp add: process_no_text extract_files)
  next
    case False
    let ?w1 = "snd (extract_text_from_image env p w)"
    have "snd (process_medical_report env p w) = snd (analyze_with_llm env t ?w1)"
      unfolding process_text [OF Inr False]
      by (cases "analyze_with_llm env t ?w1") (auto split: sum.splits)
    then show ?thesis by (simp add: analyze_files extract_files)
  qed
qed

lemma init_files: "files (snd (MedicalReportProcessor_init env w)) = files w"
  by (simp add: MedicalReportProcessor_init_def Let_def files_log split: option.splits)

lemma init_trace:
  "\<exists>calls. trace (snd (MedicalReportProcessor_init env w)) = trace w @ PaddleOCR_new # calls
     \<and> filter is_ocr_call calls = []"
  by (simp add: MedicalReportProcessor_init_def Let_def log_def split: option.splits)

lemma ensure_processor_files: "files (snd (ensure_processor env w)) = files w"
proof (cases "processor w")
  case None
  obtain r w1 where i: "MedicalReportProcessor_init env w = (r, w1)"
    by (cases "MedicalReportProcessor_init env w")
  then have "files w1 = files w" using init_files [of env w] by simp
  with None i show ?thesis
    by (simp add: ensure_processor_def split: sum.splits exn.splits)
next
  case (Some k)
  then show ?thesis by (simp add: ensure_processor_def)
qed

lemma process_upload_files: "files (snd (process_upload env name w)) = files w"
proof -
  obtain r w1 where e: "ensure_processor env w = (r, w1)" by (cases "ensure_processor env w")
  then have "files w1 = files w" using ensure_processor_files [of env w] by simp
  with e show ?thesis
    by (cases r) (simp_all add: process_upload_def process_files)
qed

lemma store_upload_files:
  "\<exists>bytes'. files (snd (store_upload env name bytes w)) = (files w)(name \<mapsto> bytes')"
  by (auto simp: store_upload_def Let_def split: option.splits)

lemma store_upload_written:
  "write_outcome env name bytes = None \<Longrightarrow>
   files (snd (store_upload env name bytes w)) = (files w)(name \<mapsto> bytes)"
  by (simp add: store_upload_def Let_def split: option.splits)



lemma store_upload_ok:
  "write_outcome env name bytes = None \<Longrightarrow> close_outcome env name = None \<Longrightarrow>
   store_upload env name bytes w = (Inr (), w\<lparr>files := (files w)(name \<mapsto> bytes)\<rparr>)"
  by (simp add: store_upload_def Let_def)

lemma try_body_too_large:
  "length (contents file) > 10 * 1024 * 1024 \<Longrightarrow>
   try_body env file w =
     (Inl (HTTPException 400 (str ''File too large. Maximum size is 10MB'')), w, None)"
  by (simp add: try_body_def)

lemma try_body_not_created:
  assumes "\<not> length (contents file) > 10 * 1024 * 1024"
    and "NamedTemporaryFile env (files w) (suffix file) = Inl e"
  shows "try_body env file w = (Inl e, log (NamedTemporaryFile_call (suffix file)) w, None)"
  using assms by (simp add: try_body_def Let_def)

text \<open>
  When the file is created, the body continues with the writing and the processing
  on the world \<open>w1\<close> in which the file exists and is empty.
\<close>

lemma try_body_created:
  assumes "\<not> length (contents file) > 10 * 1024 * 1024"
    and "NamedTemporaryFile env (files w) (suffix file) = Inr name"
  shows "try_body env file w =
     (case store_upload env name (contents file)
             ((log (NamedTemporaryFile_call (suffix file)) w)
                \<lparr>files := (files w)(name \<mapsto> [])\<rparr>) of
        (Inl e, w1) \<Rightarrow> (Inl e, w1, Some name)
      | (Inr u, w1) \<Rightarrow>
          (case process_upload env name w1 of (r, w2) \<Rightarrow> (r, w2, Some name)))"
  using assms by (simp add: try_body_def Let_def files_log)

lemma try_body_temp_file:
  assumes "\<not> length (contents file) > 10 * 1024 * 1024"
    and "NamedTemporaryFile env (files w) (suffix file) = Inr name"
  shows "snd (snd (try_body env file w)) = Some name"
    and "\<exists>bytes. files (fst (snd (try_body env file w))) = (files w)(name \<mapsto> bytes)"
    and "write_outcome env name (contents file) = None \<Longrightarrow>
         files (fst (snd (try_body env file w))) = (files w)(name \<mapsto> contents file)"
proof -
  let ?w0 = "(log (NamedTemporaryFile_call (suffix file)) w)\<lparr>files := (files w)(name \<mapsto> [])\<rparr>"
  obtain r w1 where s: "store_upload env name (contents file) ?w0 = (r, w1)"
    by (cases "store_upload env name (contents file) ?w0")
  obtain q w2 where p: "process_upload env name w1 = (q, w2)"
    by (cases "process_upload env name w1")
  have f2: "files w2 = files w1" using process_upload_files [of env name w1] p by simp
  obtain bytes where f1: "files w1 = (files ?w0)(name \<mapsto> bytes)"
    using store_upload_files [of env name "contents file" ?w0] s by auto
  have tb: "try_body env file w = (case r of Inl e \<Rightarrow> (Inl e, w1, Some name)
                                    | Inr u \<Rightarrow> (q, w2, Some name))"
    unfolding try_body_created [OF assms] s using p by (simp split: sum.splits)
  show "snd (snd (try_body env file w)) = Some name"
    unfolding tb by (cases r) simp_all
  have fs: "files (fst (snd (try_body env file w))) = files w1"
    unfolding tb using f2 by (cases r) simp_all
  show "\<exists>bytes. files (fst (snd (try_body env file w))) = (files w)(name \<mapsto> bytes)"
    unfolding fs f1 by (simp add: files_log) blast
  show "files (fst (snd (try_body env file w))) = (files w)(name \<mapsto> contents file)"
    if "write_outcome env name (contents file) = None"
    unfolding fs using store_upload_written [OF that, of ?w0] s by simp
qed

lemma try_body_temp_file_iff:
  "snd (snd (try_body env file w)) = Some name \<longleftrightarrow>
     \<not> length (contents file) > 10 * 1024 * 1024
     \<and> NamedTemporaryFile env (files w) (suffix file) = Inr name"
proof (cases "length (contents file) > 10 * 1024 * 1024")
  case True
  then show ?thesis by (simp add: try_body_too_large)
next
  case False
  show ?thesis
  proof (cases "NamedTemporaryFile env (files w) (suffix file)")
    case (Inl e)
    with False show ?thesis by (simp add: try_body_not_created)
  next
    case (Inr n)
    with False try_body_temp_file(1) [OF False Inr] show ?thesis by auto
  qed
qed

lemma try_body_no_temp_file:
  assumes "snd (snd (try_body env file w)) = None"
  shows "files (fst (snd (try_body env file w))) = files w"
proof (cases "length (contents file) > 10 * 1024 * 1024")
  case True
  then show ?thesis by (simp add: try_body_too_large)
next
  case False
  show ?thesis
  proof (cases "NamedTemporaryFile env (files w) (suffix file)")
    case (Inl e)
    with False show ?thesis by (simp add: try_body_not_created files_log)
  next
    case (Inr n)
    with assms try_body_temp_file(1) [OF False Inr] show ?thesis by simp
  qed
qed

lemma analyze_report_allowed:
  assumes "content_type file = Some t" and "t \<in> set allowed_types"
  shows "analyze_report env file w =
           (respond (fst (try_body env file w)),
            cleanup env (snd (snd (try_body env file w))) (fst (snd (try_body env file w))))"
  using assms by (simp add: analyze_report_def split: prod.splits)

lemma cleanup_removes:
  "unlink_ok env name \<Longrightarrow> files (cleanup env (Some name) w) name = None"
  by (simp add: cleanup_def Let_def files_log)

lemma cleanup_fails:
  "\<not> unlink_ok env name \<Longrightarrow> files (cleanup env (Some name) w) = files w"
  by (simp add: cleanup_def Let_def files_log)

lemma cleanup_files:
  "unlink_ok env name \<Longrightarrow> files (cleanup env (Some name) w) = (files w)(name := None)"
  by (auto simp: cleanup_def Let_def files_log)

lemma cleanup_None: "cleanup env None w = w"
  by (simp add: cleanup_def)

lemma extract_unlink:
  "extract_text_from_image (env\<lparr>unlink_ok := u\<rparr>) p w = extract_text_from_image env p w"
  by (simp add: extract_text_from_image_def Let_def split: option.splits sum.splits)

lemma get_groq_response_unlink:
  "get_groq_response (env\<lparr>unlink_ok := u\<rparr>) msgs n w = get_groq_response env msgs n w"
  by (simp add: get_groq_response_def groq_failed_def Let_def split: sum.splits)

lemma analyze_unlink:
  "analyze_with_llm (env\<lparr>unlink_ok := u\<rparr>) x w = analyze_with_llm env x w"
  by (simp add: analyze_with_llm_def get_groq_response_unlink cong: prod.case_cong sum.case_cong)

lemma process_unlink:
  "process_medical_report (env\<lparr>unlink_ok := u\<rparr>) p w = process_medical_report env p w"
  by (simp add: process_medical_report_def extract_unlink analyze_unlink cong: prod.case_cong sum.case_cong if_cong)

lemma init_unlink:
  "MedicalReportProcessor_init (env\<lparr>unlink_ok := u\<rparr>) w = MedicalReportProcessor_init env w"
  by (simp add: MedicalReportProcessor_init_def Let_def split: option.splits)

lemma store_upload_unlink:
  "store_upload (env\<lparr>unlink_ok := u\<rparr>) name bytes w = store_upload env name bytes w"
  by (simp add: store_upload_def Let_def split: option.splits)

lemma ensure_processor_unlink:
  "ensure_processor (env\<lparr>unlink_ok := u\<rparr>) w = ensure_processor env w"
  by (simp add: ensure_processor_def init_unlink cong: option.case_cong)

lemma process_upload_unlink:
  "process_upload (env\<lparr>unlink_ok := u\<rparr>) name w = process_upload env name w"
  by (simp add: process_upload_def ensure_processor_unlink process_unlink
      cong: prod.case_cong sum.case_cong)

lemma try_body_unlink:
  "try_body (env\<lparr>unlink_ok := u\<rparr>) file w = try_body env file w"
  by (simp add: try_body_def Let_def store_upload_unlink process_upload_unlink
      cong: prod.case_cong sum.case_cong if_cong)

lemma response_unlink:
  "fst (analyze_report (env\<lparr>unlink_ok := u\<rparr>) file w) = fst (analyze_report env file w)"
  by (simp add: analyze_report_def try_body_unlink split: prod.splits)

text \<open>
  Claim C4.  An upload whose declared content type is not one of the five types of the
  allow-list (or is absent) is answered with status 400 and leaves the world as it
  was: no temporary file, no call to any collaborator.  An upload of an allowed type
  whose body is longer than 10 * 1024 * 1024 bytes is answered with status 400 and
  leaves the world as it was as well, so no temporary file was created.
\<close>

theorem rejected_before_any_work:
  "((\<forall>t \<in> set allowed_types. content_type file \<noteq> Some t)
      \<longrightarrow> analyze_report env file w = (HTTPError 400 invalid_file_type, w))
   \<and> (content_type file = Some t \<and> t \<in> set allowed_types
        \<and> length (contents file) > 10 * 1024 * 1024
      \<longrightarrow> analyze_report env file w =
            (HTTPError 400 (str ''File too large. Maximum size is 10MB''), w))
   \<and> allowed_types =
        [str ''image/jpeg'', str ''image/jpg'', str ''image/png'', str ''image/bmp'',
         str ''image/tiff'']"
proof (intro conjI impI)
  assume "\<forall>t \<in> set allowed_types. content_type file \<noteq> Some t"
  then have "case content_type file of None \<Rightarrow> True | Some t \<Rightarrow> t \<notin> set allowed_types"
    by (auto split: option.splits)
  then show "analyze_report env file w = (HTTPError 400 invalid_file_type, w)"
    by (simp add: analyze_report_def)
next
  assume h: "content_type file = Some t \<and> t \<in> set allowed_types
        \<and> length (contents file) > 10 * 1024 * 1024"
  then have "try_body env file w =
     (Inl (HTTPException 400 (str ''File too large. Maximum size is 10MB'')), w, None)"
    by (intro try_body_too_large) simp
  moreover from h have h1: "content_type file = Some t" and h2: "t \<in> set allowed_types"
    by simp_all
  ultimately show "analyze_report env file w =
            (HTTPError 400 (str ''File too large. Maximum size is 10MB''), w)"
    by (simp add: analyze_report_allowed [OF h1 h2] cleanup_None)
next
  show "allowed_types =
        [str ''image/jpeg'', str ''image/jpg'', str ''image/png'', str ''image/bmp'',
         str ''image/tiff'']"
    by (rule allowed_types_def)
qed

theorem rejected_witness:
  "list_all (\<lambda>t. content_type (sample_upload\<lparr>content_type := Some (str ''application/pdf'')\<rparr>)
                  \<noteq> Some t) allowed_types
   \<and> analyze_report sample_env (sample_upload\<lparr>content_type := Some (str ''application/pdf'')\<rparr>)
         sample_world = (HTTPError 400 invalid_file_type, sample_world)
   \<and> content_type (sample_upload\<lparr>contents := replicate 10485761 0\<rparr>) = Some (str ''image/png'')
   \<and> str ''image/png'' \<in> set allowed_types
   \<and> length (contents (sample_upload\<lparr>contents := replicate 10485761 0\<rparr>)) > 10 * 1024 * 1024
   \<and> analyze_report sample_env (sample_upload\<lparr>contents := replicate 10485761 0\<rparr>) sample_world =
         (HTTPError 400 (str ''File too large. Maximum size is 10MB''), sample_world)"
proof -
  let ?f = "sample_upload\<lparr>content_type := Some (str ''application/pdf'')\<rparr>"
  let ?g = "sample_upload\<lparr>contents := replicate 10485761 0\<rparr>"
  have a: "\<forall>t \<in> set allowed_types. content_type ?f \<noteq> Some t"
    by (simp add: allowed_types_def str_def)
  have a': "list_all (\<lambda>t. content_type ?f \<noteq> Some t) allowed_types"
    using a by (simp only: list_all_iff)
  have b: "content_type ?g = Some (str ''image/png'') \<and> str ''image/png'' \<in> set allowed_types
        \<and> length (contents ?g) > 10 * 1024 * 1024"
    by (simp add: sample_upload_def allowed_types_def)
  note F = rejected_before_any_work [of ?f sample_env sample_world]
  note G = rejected_before_any_work [of ?g sample_env sample_world "str ''image/png''"]
  show ?thesis
    by (intro conjI a' F [THEN conjunct1, THEN mp, OF a] b [THEN conjunct1]
        b [THEN conjunct2, THEN conjunct1] b [THEN conjunct2, THEN conjunct2]
        G [THEN conjunct2, THEN conjunct1, THEN mp, OF b])
qed







lemma try_body_stored:
  assumes "\<not> length (contents file) > 10 * 1024 * 1024"
    and "NamedTemporaryFile env (files w) (suffix file) = Inr name"
    and "write_outcome env name (contents file) = None" and "close_outcome env name = None"
  shows "fst (try_body env file w) =
           fst (process_upload env name
                  ((log (NamedTemporaryFile_call (suffix file)) w)
                     \<lparr>files := (files w)(name \<mapsto> contents file)\<rparr>))"
proof -
  let ?w1 = "(log (NamedTemporaryFile_call (suffix file)) w)\<lparr>files := (files w)(name \<mapsto> [])\<rparr>"
  let ?w2 = "(log (NamedTemporaryFile_call (suffix file)) w)
               \<lparr>files := (files w)(name \<mapsto> contents file)\<rparr>"
  have s: "store_upload env name (contents file) ?w1 = (Inr (), ?w2)"
    unfolding store_upload_ok [OF assms(3,4)] by simp
  show ?thesis
    by (simp add: try_body_created [OF assms(1,2)] s split: prod.splits)
qed





lemma long_name_suffix: "suffix long_name_upload = 46 # replicate 300 120"
proof -
  have r: "rev (str ''a.'' @ replicate 300 120) = replicate 300 120 @ [46, 97]"
    by (simp add: str_def)
  have t1: "takeWhile (\<lambda>c. c \<noteq> 47) (replicate 300 120 @ [46, 97 :: nat]) =
            replicate 300 120 @ [46, 97]"
    by (simp add: takeWhile_append2)
  have t2: "takeWhile (\<lambda>c. c \<noteq> 46) (replicate 300 120 @ [46, 97 :: nat]) = replicate 300 120"
    using takeWhile_append2 [of "replicate 300 (120 :: nat)" "\<lambda>c. c \<noteq> 46" "[46, 97]"]
    by simp
  have "splitext_ext (str ''a.'' @ replicate 300 120) = 46 # replicate 300 120"
    unfolding splitext_ext_def r t1 Let_def by (simp add: t2 str_def)
  then show ?thesis by (simp add: suffix_def long_name_upload_def)
qed





lemma handler_files:
  assumes "content_type file = Some t" and "t \<in> set allowed_types"
    and "snd (snd (try_body env file w)) = Some name"
  shows "unlink_ok env name \<Longrightarrow>
           files (snd (analyze_report env file w)) = (files w)(name := None)"
    and "\<not> unlink_ok env name \<Longrightarrow>
           \<exists>bytes. files (snd (analyze_report env file w)) = (files w)(name \<mapsto> bytes)"
    and "\<not> unlink_ok env name \<Longrightarrow> write_outcome env name (contents file) = None \<Longrightarrow>
           files (snd (analyze_report env file w)) = (files w)(name \<mapsto> contents file)"
proof -
  let ?w1 = "fst (snd (try_body env file w))"
  from assms(3) have s: "\<not> length (contents file) > 10 * 1024 * 1024"
    and n: "NamedTemporaryFile env (files w) (suffix file) = Inr name"
    by (simp_all add: try_body_temp_file_iff)
  have ar: "snd (analyze_report env file w) = cleanup env (Some name) ?w1"
    unfolding analyze_report_allowed [OF assms(1,2)] assms(3) by simp
  obtain bytes where f: "files ?w1 = (files w)(name \<mapsto> bytes)"
    using try_body_temp_file(2) [OF s n] by blast
  show "files (snd (analyze_report env file w)) = (files w)(name := None)"
    if "unlink_ok env name"
    unfolding ar using that f by (simp add: cleanup_files)
  show "\<exists>bytes. files (snd (analyze_report env file w)) = (files w)(name \<mapsto> bytes)"
    if "\<not> unlink_ok env name"
    unfolding ar using that f by (auto simp: cleanup_fails)
  show "files (snd (analyze_report env file w)) = (files w)(name \<mapsto> contents file)"
    if "\<not> unlink_ok env name" and "write_outcome env name (contents file) = None"
    unfolding ar using that(1) try_body_temp_file(3) [OF s n that(2)]
    by (simp add: cleanup_fails)
qed

lemma handler_no_temp_file:
  assumes "content_type file = Some t" and "t \<in> set allowed_types"
    and "snd (snd (try_body env file w)) = None"
  shows "files (snd (analyze_report env file w)) = files w"
  unfolding analyze_report_allowed [OF assms(1,2)] assms(3)
  by (simp add: cleanup_None try_body_no_temp_file [OF assms(3)])

lemma sample_file_created:
  assumes "NamedTemporaryFile env = NamedTemporaryFile sample_env"
  shows "NamedTemporaryFile env fs (suffix sample_upload) = Inr (str ''/tmp/tmpa.png'')"
  unfolding assms
  by (simp add: sample_env_def sample_upload_def suffix_def splitext_ext_def str_def)

text \<open>
  Claim C3, as stated, fails when \<open>os.unlink\<close> raises: the exception is dropped and the
  temporary file of the request is still there when the request has completed.
\<close>

theorem failed_unlink_leaves_temp_file:
  "snd (snd (try_body (sample_env\<lparr>unlink_ok := (\<lambda>path. False)\<rparr>) sample_upload sample_world)) =
     Some (str ''/tmp/tmpa.png'')
   \<and> files sample_world (str ''/tmp/tmpa.png'') = None
   \<and> files (snd (analyze_report (sample_env\<lparr>unlink_ok := (\<lambda>path. False)\<rparr>)
        sample_upload sample_world)) (str ''/tmp/tmpa.png'') = Some [137, 80, 78, 71]"
proof -
  let ?e = "sample_env\<lparr>unlink_ok := (\<lambda>path. False)\<rparr>"
  let ?n = "str ''/tmp/tmpa.png''"
  have a: "content_type sample_upload = Some (str ''image/png'')" by (simp add: sample_upload_def)
  have b: "str ''image/png'' \<in> set allowed_types" by (simp add: allowed_types_def)
  have c: "\<not> length (contents sample_upload) > 10 * 1024 * 1024" by (simp add: sample_upload_def)
  have n: "NamedTemporaryFile ?e (files sample_world) (suffix sample_upload) = Inr ?n"
    by (rule sample_file_created) simp
  have 1: "snd (snd (try_body ?e sample_upload sample_world)) = Some ?n"
    by (rule try_body_temp_file(1) [OF c n])
  have 2: "files sample_world ?n = None" by (simp add: sample_world_def)
  have u: "\<not> unlink_ok ?e ?n" by simp
  have wr: "write_outcome ?e ?n (contents sample_upload) = None" by (simp add: sample_env_def)
  have 3: "files (snd (analyze_report ?e sample_upload sample_world)) ?n = Some [137, 80, 78, 71]"
    unfolding handler_files(3) [OF a b 1 u wr] by (simp add: sample_upload_def)
  show ?thesis by (intro conjI 1 2 3)
qed

text \<open>
  Claim C3, amended.  For a request of an allowed type, the response is the one the
  outcome of the body determines, on the success path and on every exception.  The
  request has a temporary file exactly when its body has at most 10 * 1024 * 1024
  bytes and \<open>NamedTemporaryFile\<close> returns.  When \<open>os.unlink\<close> succeeds, that file does not
  exist after the request, however the body was left (and the files are the ones from
  before the request when the name was fresh); when \<open>os.unlink\<close> fails the file stays,
  with the uploaded bytes when they were written.  A request without a temporary
  file leaves the files as they were, and an oversized body leaves the whole world as
  it was.  Whether \<open>os.unlink\<close> fails or not never changes the response.
\<close>

theorem temp_file_removed_when_unlink_succeeds:
  "(content_type file = Some t \<and> t \<in> set allowed_types \<longrightarrow>
      fst (analyze_report env file w) = respond (fst (try_body env file w))
      \<and> (snd (snd (try_body env file w)) = Some name \<longleftrightarrow>
            length (contents file) \<le> 10 * 1024 * 1024
            \<and> NamedTemporaryFile env (files w) (suffix file) = Inr name)
      \<and> (snd (snd (try_body env file w)) = Some name \<and> unlink_ok env name \<longrightarrow>
            files (snd (analyze_report env file w)) name = None)
      \<and> (snd (snd (try_body env file w)) = Some name \<and> unlink_ok env name
            \<and> files w name = None \<longrightarrow>
            files (snd (analyze_report env file w)) = files w)
      \<and> (snd (snd (try_body env file w)) = Some name \<and> \<not> unlink_ok env name \<longrightarrow>
            files (snd (analyze_report env file w)) name \<noteq> None)
      \<and> (snd (snd (try_body env file w)) = Some name \<and> \<not> unlink_ok env name
            \<and> write_outcome env name (contents file) = None \<longrightarrow>
            files (snd (analyze_report env file w)) name = Some (contents file))
      \<and> (snd (snd (try_body env file w)) = None \<longrightarrow>
            files (snd (analyze_report env file w)) = files w)
      \<and> (length (contents file) > 10 * 1024 * 1024 \<longrightarrow>
            snd (snd (try_body env file w)) = None \<and> snd (analyze_report env file w) = w))
   \<and> fst (analyze_report (env\<lparr>unlink_ok := u\<rparr>) file w) = fst (analyze_report env file w)"
proof (rule conjI, rule impI)
  assume h: "content_type file = Some t \<and> t \<in> set allowed_types"
  then have h1: "content_type file = Some t" and h2: "t \<in> set allowed_types" by simp_all
  note ar = analyze_report_allowed [OF h1 h2]
  have 1: "fst (analyze_report env file w) = respond (fst (try_body env file w))"
    unfolding ar by simp
  have 2: "snd (snd (try_body env file w)) = Some name \<longleftrightarrow>
            length (contents file) \<le> 10 * 1024 * 1024
            \<and> NamedTemporaryFile env (files w) (suffix file) = Inr name"
    unfolding try_body_temp_file_iff by auto
  have 3: "files (snd (analyze_report env file w)) name = None"
    if "snd (snd (try_body env file w)) = Some name \<and> unlink_ok env name"
    using that handler_files(1) [OF h1 h2, of env w name] by simp
  have 4: "files (snd (analyze_report env file w)) = files w"
    if a: "snd (snd (try_body env file w)) = Some name \<and> unlink_ok env name
            \<and> files w name = None"
  proof -
    have "files (snd (analyze_report env file w)) = (files w)(name := None)"
      using a handler_files(1) [OF h1 h2, of env w name] by simp
    also have "\<dots> = files w" using a by (simp add: fun_upd_idem)
    finally show ?thesis .
  qed
  have 5: "files (snd (analyze_report env file w)) name \<noteq> None"
    if a: "snd (snd (try_body env file w)) = Some name \<and> \<not> unlink_ok env name"
  proof -
    obtain bytes where "files (snd (analyze_report env file w)) = (files w)(name \<mapsto> bytes)"
      using a handler_files(2) [OF h1 h2, of env w name] by blast
    then show ?thesis by simp
  qed
  have 6: "files (snd (analyze_report env file w)) name = Some (contents file)"
    if a: "snd (snd (try_body env file w)) = Some name \<and> \<not> unlink_ok env name
            \<and> write_outcome env name (contents file) = None"
    using a handler_files(3) [OF h1 h2, of env w name] by simp
  have 7: "files (snd (analyze_report env file w)) = files w"
    if "snd (snd (try_body env file w)) = None"
    using that by (rule handler_no_temp_file [OF h1 h2])
  have 8: "snd (snd (try_body env file w)) = None \<and> snd (analyze_report env file w) = w"
    if "length (contents file) > 10 * 1024 * 1024"
    unfolding ar try_body_too_large [OF that] by (simp add: cleanup_None)
  from 1 2 3 4 5 6 7 8
  show "fst (analyze_report env file w) = respond (fst (try_body env file w))
      \<and> (snd (snd (try_body env file w)) = Some name \<longleftrightarrow>
            length (contents file) \<le> 10 * 1024 * 1024
            \<and> NamedTemporaryFile env (files w) (suffix file) = Inr name)
      \<and> (snd (snd (try_body env file w)) = Some name \<and> unlink_ok env name \<longrightarrow>
            files (snd (analyze_report env file w)) name = None)
      \<and> (snd (snd (try_body env file w)) = Some name \<and> unlink_ok env name
            \<and> files w name = None \<longrightarrow>
            files (snd (analyze_report env file w)) = files w)
      \<and> (snd (snd (try_body env file w)) = Some name \<and> \<not> unlink_ok env name \<longrightarrow>
            files (snd (analyze_report env file w)) name \<noteq> None)
      \<and> (snd (snd (try_body env file w)) = Some name \<and> \<not> unlink_ok env name
            \<and> write_outcome env name (contents file) = None \<longrightarrow>
            files (snd (analyze_report env file w)) name = Some (contents file))
      \<and> (snd (snd (try_body env file w)) = None \<longrightarrow>
            files (snd (analyze_report env file w)) = files w)
      \<and> (length (contents file) > 10 * 1024 * 1024 \<longrightarrow>
            snd (snd (try_body env file w)) = None \<and> snd (analyze_report env file w) = w)"
    by (intro conjI impI) blast+
next
  show "fst (analyze_report (env\<lparr>unlink_ok := u\<rparr>) file w) = fst (analyze_report env file w)"
    by (rule response_unlink)
qed

lemma sample_process_upload:
  assumes "processor v = None"
  shows "fst (process_upload sample_env q v) =
     Inr \<lparr>explanation = str ''Hello'',
          highlights = [str ''finding one'', str ''finding two''],
          raw_text = str ''Line A\<newline>Line B''\<rparr>"
proof -
  have "\<exists>v'. ensure_processor sample_env v = (Inr (), v')"
    using assms
    by (simp add: ensure_processor_def MedicalReportProcessor_init_def sample_env_def Let_def
        str_def)
  then obtain v' where "ensure_processor sample_env v = (Inr (), v')" by blast
  then show ?thesis by (simp add: process_upload_def sample_process)
qed

lemma unreadable_process_upload:
  assumes "processor v = None"
  shows "fst (process_upload
            (sample_env\<lparr>Image_verify := (\<lambda>bytes. Some (Exception (str ''cannot identify image file'')))\<rparr>)
            q v) =
     Inl (Exception (str ''OCR extraction failed: cannot identify image file''))"
proof -
  let ?e = "sample_env\<lparr>Image_verify := (\<lambda>bytes. Some (Exception (str ''cannot identify image file'')))\<rparr>"
  have "\<exists>v'. ensure_processor ?e v = (Inr (), v')"
    using assms
    by (simp add: ensure_processor_def MedicalReportProcessor_init_def sample_env_def Let_def
        str_def)
  then obtain v' where e: "ensure_processor ?e v = (Inr (), v')" by blast
  have x: "fst (extract_text_from_image ?e q v') =
             Inl (Exception (str ''OCR extraction failed: cannot identify image file''))"
    by (simp add: extract_text_from_image_def Let_def str_def)
  show ?thesis using e by (simp add: process_upload_def process_extract_fails [OF x])
qed

theorem temp_file_witness:
  "content_type sample_upload = Some (str ''image/png'') \<and> str ''image/png'' \<in> set allowed_types
   \<and> length (contents sample_upload) \<le> 10 * 1024 * 1024
   \<and> NamedTemporaryFile sample_env (files sample_world) (suffix sample_upload) =
       Inr (str ''/tmp/tmpa.png'')
   \<and> snd (snd (try_body sample_env sample_upload sample_world)) = Some (str ''/tmp/tmpa.png'')
   \<and> unlink_ok sample_env (str ''/tmp/tmpa.png'')
   \<and> files sample_world (str ''/tmp/tmpa.png'') = None
   \<and> fst (analyze_report sample_env sample_upload sample_world) =
       JSONResponse True \<lparr>explanation = str ''Hello'',
          highlights = [str ''finding one'', str ''finding two''],
          raw_text = str ''Line A\<newline>Line B''\<rparr>
   \<and> files (snd (analyze_report sample_env sample_upload sample_world)) (str ''/tmp/tmpa.png'') = None
   \<and> files (snd (analyze_report sample_env sample_upload sample_world)) = files sample_world
   \<and> fst (analyze_report
         (sample_env\<lparr>Image_verify := (\<lambda>bytes. Some (Exception (str ''cannot identify image file'')))\<rparr>)
         sample_upload sample_world) =
       HTTPError 500 (str ''Failed to process medical report: OCR extraction failed: cannot identify image file'')
   \<and> files (snd (analyze_report
         (sample_env\<lparr>Image_verify := (\<lambda>bytes. Some (Exception (str ''cannot identify image file'')))\<rparr>)
         sample_upload sample_world)) (str ''/tmp/tmpa.png'') = None
   \<and> snd (snd (try_body
         (sample_env\<lparr>write_outcome :=
            (\<lambda>name bytes. Some (Exception (str ''[Errno 28] No space left on device''), [137]))\<rparr>)
         sample_upload sample_world)) = Some (str ''/tmp/tmpa.png'')
   \<and> files (snd (analyze_report
         (sample_env\<lparr>write_outcome :=
            (\<lambda>name bytes. Some (Exception (str ''[Errno 28] No space left on device''), [137]))\<rparr>)
         sample_upload sample_world)) (str ''/tmp/tmpa.png'') = None
   \<and> \<not> unlink_ok (sample_env\<lparr>unlink_ok := (\<lambda>path. False)\<rparr>) (str ''/tmp/tmpa.png'')
   \<and> write_outcome (sample_env\<lparr>unlink_ok := (\<lambda>path. False)\<rparr>) (str ''/tmp/tmpa.png'')
         (contents sample_upload) = None
   \<and> files (snd (analyze_report (sample_env\<lparr>unlink_ok := (\<lambda>path. False)\<rparr>)
         sample_upload sample_world)) (str ''/tmp/tmpa.png'') = Some (contents sample_upload)
   \<and> fst (analyze_report (sample_env\<lparr>unlink_ok := (\<lambda>path. False)\<rparr>) sample_upload sample_world) =
       fst (analyze_report sample_env sample_upload sample_world)
   \<and> content_type long_name_upload = Some (str ''image/png'')
   \<and> snd (snd (try_body sample_env long_name_upload sample_world)) = None
   \<and> files (snd (analyze_report sample_env long_name_upload sample_world)) = files sample_world
   \<and> length (contents (sample_upload\<lparr>contents := replicate 10485761 0\<rparr>)) > 10 * 1024 * 1024
   \<and> snd (snd (try_body sample_env (sample_upload\<lparr>contents := replicate 10485761 0\<rparr>)
         sample_world)) = None
   \<and> snd (analyze_report sample_env (sample_upload\<lparr>contents := replicate 10485761 0\<rparr>)
         sample_world) = sample_world"
proof -
  let ?n = "str ''/tmp/tmpa.png''"
  let ?t = "str ''image/png''"
  let ?bad = "sample_env\<lparr>Image_verify := (\<lambda>bytes. Some (Exception (str ''cannot identify image file'')))\<rparr>"
  let ?full = "sample_env\<lparr>write_outcome :=
            (\<lambda>name bytes. Some (Exception (str ''[Errno 28] No space left on device''), [137]))\<rparr>"
  let ?nu = "sample_env\<lparr>unlink_ok := (\<lambda>path. False)\<rparr>"
  let ?big = "sample_upload\<lparr>contents := replicate 10485761 0\<rparr>"
  have a: "content_type sample_upload = Some ?t \<and> ?t \<in> set allowed_types"
    by (simp add: sample_upload_def allowed_types_def)
  have a2: "content_type ?big = Some ?t \<and> ?t \<in> set allowed_types"
    by (simp add: sample_upload_def allowed_types_def)
  have a3: "content_type long_name_upload = Some ?t \<and> ?t \<in> set allowed_types"
    by (simp add: long_name_upload_def sample_upload_def allowed_types_def)
  have c: "length (contents sample_upload) \<le> 10 * 1024 * 1024" by (simp add: sample_upload_def)
  have c': "\<not> length (contents sample_upload) > 10 * 1024 * 1024" using c by simp
  have c3: "\<not> length (contents long_name_upload) > 10 * 1024 * 1024"
    by (simp add: long_name_upload_def sample_upload_def)
  have u: "unlink_ok sample_env ?n" by (simp add: sample_env_def)
  have uB: "unlink_ok ?bad ?n" by (simp add: sample_env_def)
  have uF: "unlink_ok ?full ?n" by (simp add: sample_env_def)
  have f: "files sample_world ?n = None" by (simp add: sample_world_def)
  have nu: "\<not> unlink_ok ?nu ?n" by simp
  have wr: "write_outcome sample_env ?n (contents sample_upload) = None"
    by (simp add: sample_env_def)
  have wrB: "write_outcome ?bad ?n (contents sample_upload) = None" by (simp add: sample_env_def)
  have wrN: "write_outcome ?nu ?n (contents sample_upload) = None" by (simp add: sample_env_def)
  have cl: "close_outcome sample_env ?n = None" by (simp add: sample_env_def)
  have clB: "close_outcome ?bad ?n = None" by (simp add: sample_env_def)
  have l: "length (contents ?big) > 10 * 1024 * 1024" by simp
  have nA: "NamedTemporaryFile sample_env (files sample_world) (suffix sample_upload) = Inr ?n"
    by (rule sample_file_created) simp
  have nB: "NamedTemporaryFile ?bad (files sample_world) (suffix sample_upload) = Inr ?n"
    by (rule sample_file_created) simp
  have nF: "NamedTemporaryFile ?full (files sample_world) (suffix sample_upload) = Inr ?n"
    by (rule sample_file_created) simp
  have nC: "NamedTemporaryFile ?nu (files sample_world) (suffix sample_upload) = Inr ?n"
    by (rule sample_file_created) simp
  have nL: "NamedTemporaryFile sample_env (files sample_world) (suffix long_name_upload) =
              Inl (Exception (str ''[Errno 36] File name too long''))"
    unfolding long_name_suffix by (simp add: sample_env_def)
  have p: "processor ((log (NamedTemporaryFile_call (suffix sample_upload)) sample_world)
             \<lparr>files := (files sample_world)(?n \<mapsto> contents sample_upload)\<rparr>) = None"
    by (simp add: log_def sample_world_def)
  note A = temp_file_removed_when_unlink_succeeds [of sample_upload ?t sample_env sample_world ?n
      "\<lambda>path. False", THEN conjunct1, THEN mp, OF a]
  note B = temp_file_removed_when_unlink_succeeds [of sample_upload ?t ?bad sample_world ?n,
      THEN conjunct1, THEN mp, OF a]
  note F = temp_file_removed_when_unlink_succeeds [of sample_upload ?t ?full sample_world ?n,
      THEN conjunct1, THEN mp, OF a]
  note C = temp_file_removed_when_unlink_succeeds [of sample_upload ?t ?nu sample_world ?n,
      THEN conjunct1, THEN mp, OF a]
  note D = temp_file_removed_when_unlink_succeeds [of ?big ?t sample_env sample_world ?n,
      THEN conjunct1, THEN mp, OF a2]
  note L = temp_file_removed_when_unlink_succeeds [of long_name_upload ?t sample_env sample_world ?n,
      THEN conjunct1, THEN mp, OF a3]
  note E = temp_file_removed_when_unlink_succeeds [of sample_upload ?t sample_env sample_world ?n
      "\<lambda>path. False", THEN conjunct2]
  have tA: "snd (snd (try_body sample_env sample_upload sample_world)) = Some ?n"
    using A [THEN conjunct2, THEN conjunct1] c nA by blast
  have tB: "snd (snd (try_body ?bad sample_upload sample_world)) = Some ?n"
    using B [THEN conjunct2, THEN conjunct1] c nB by blast
  have tF: "snd (snd (try_body ?full sample_upload sample_world)) = Some ?n"
    using F [THEN conjunct2, THEN conjunct1] c nF by blast
  have tC: "snd (snd (try_body ?nu sample_upload sample_world)) = Some ?n"
    using C [THEN conjunct2, THEN conjunct1] c nC by blast
  have tL: "snd (snd (try_body sample_env long_name_upload sample_world)) = None"
    by (simp add: try_body_not_created [OF c3 nL])
  have rA: "fst (analyze_report sample_env sample_upload sample_world) =
       JSONResponse True \<lparr>explanation = str ''Hello'',
          highlights = [str ''finding one'', str ''finding two''],
          raw_text = str ''Line A\<newline>Line B''\<rparr>"
    unfolding A [THEN conjunct1] try_body_stored [OF c' nA wr cl]
      sample_process_upload [OF p] by simp
  have rB: "fst (analyze_report ?bad sample_upload sample_world) =
       HTTPError 500 (str ''Failed to process medical report: OCR extraction failed: cannot identify image file'')"
    unfolding B [THEN conjunct1] try_body_stored [OF c' nB wrB clB]
      unreadable_process_upload [OF p] by (simp add: str_def)
  note gone = A [THEN conjunct2, THEN conjunct2, THEN conjunct1, THEN mp, OF conjI [OF tA u]]
  note frame = A [THEN conjunct2, THEN conjunct2, THEN conjunct2, THEN conjunct1, THEN mp,
      OF conjI [OF tA conjI [OF u f]]]
  note goneB = B [THEN conjunct2, THEN conjunct2, THEN conjunct1, THEN mp, OF conjI [OF tB uB]]
  note goneF = F [THEN conjunct2, THEN conjunct2, THEN conjunct1, THEN mp, OF conjI [OF tF uF]]
  note stays = C [THEN conjunct2, THEN conjunct2, THEN conjunct2, THEN conjunct2, THEN conjunct2,
      THEN conjunct1, THEN mp, OF conjI [OF tC conjI [OF nu wrN]]]
  note none = L [THEN conjunct2, THEN conjunct2, THEN conjunct2, THEN conjunct2, THEN conjunct2,
      THEN conjunct2, THEN conjunct1, THEN mp, OF tL]
  note over = D [THEN conjunct2, THEN conjunct2, THEN conjunct2, THEN conjunct2, THEN conjunct2,
      THEN conjunct2, THEN conjunct2, THEN mp, OF l]
  show ?thesis
    by (intro conjI a [THEN conjunct1] a [THEN conjunct2] c nA tA u f rA gone frame rB goneB
        tF goneF nu wrN stays E a3 [THEN conjunct1] tL none l
        over [THEN conjunct1] over [THEN conjunct2])
qed

end
